theory Spec2Isabelle
  imports Main "HOL-Library.Word"
begin

unbundle bit_operations_syntax

section \<open>The cfssl sidekick: data model\<close>

text \<open>
  The controller of \<^verbatim>\<open>controller.go\<close> talks to four collaborators: the signing
  endpoint (HTTP), the file system, a child process with its deadline timer, and the
  watchdog behind \<^verbatim>\<open>doneCh\<close>. Each call to one of the first three has an outcome that
  the controller cannot choose; the model takes these outcomes as explicit parameters
  (the records and datatypes ending in \<open>_env\<close>, and \<open>exchange\<close>), threads the file system
  as explicit state, and returns the calls made to the outside world as a list of
  events. The watchdog is described by the spec only and is modelled from there.
\<close>

subsection \<open>Go values\<close>

text \<open>\<^verbatim>\<open>time.Duration\<close> counts nanoseconds; no arithmetic is done on it here.\<close>

type_synonym duration = int

definition Second :: duration where
  "Second = 1000000000"

text \<open>A Go \<^verbatim>\<open>error\<close> is identified with its message; \<open>None\<close> is \<^verbatim>\<open>nil\<close>.\<close>

type_synonym err = string

text \<open>\<^verbatim>\<open>os.FileMode\<close> is a \<^verbatim>\<open>uint32\<close>; the permission bits are the low nine.\<close>

type_synonym FileMode = "32 word"

definition mode_0600 :: FileMode where
  "mode_0600 = 6 * 64 + 0 * 8 + 0"

definition mode_0770 :: FileMode where
  "mode_0770 = 7 * 64 + 7 * 8 + 0"

text \<open>
  A panic ends the process: the index expression \<^verbatim>\<open>response.Errors[0]\<close> on an empty
  slice, and the method call \<^verbatim>\<open>cmd.Process.Kill()\<close> on the nil \<^verbatim>\<open>Process\<close> of a command
  that never started.
\<close>

datatype panic = IndexOutOfRange | NilPointerDereference

datatype 'a result = Return 'a | Panic panic

subsection \<open>Configuration\<close>

text \<open>
  The struct \<^verbatim>\<open>Config\<close> is declared in another file of the package; its fields are
  the ones \<^verbatim>\<open>main.go\<close> fills in (lines 153 to 173).
\<close>

record Config =
  CertsDir :: string
  Country :: string
  Domains :: "string list"
  EndpointProfile :: string
  EndpointToken :: string
  EndpointURL :: string
  ExecCommand :: string
  Expiry :: duration
  Locality :: string
  Onetime :: bool
  Organization :: string
  Province :: string
  Size :: int
  Timeout :: duration
  TLSCAPath :: string
  TLSCAFilename :: string
  TLSCertificateFilename :: string
  TLSPrivateKeyFilename :: string
  Verbose :: bool

text \<open>
  Modelled from the spec: the methods \<^verbatim>\<open>CertificateFile\<close>, \<^verbatim>\<open>PrivateKeyFile\<close> and
  \<^verbatim>\<open>CAFile\<close> of \<^verbatim>\<open>Config\<close> are not in \<^verbatim>\<open>controller.go\<close> or \<^verbatim>\<open>main.go\<close>. The spec speaks of an output
  directory and three output filenames; the paths are taken to be the filename under
  the directory. No property below depends on the shape of these paths.
\<close>

definition CertificateFile :: "Config \<Rightarrow> string" where
  "CertificateFile c = CertsDir c @ ''/'' @ TLSCertificateFilename c"

definition PrivateKeyFile :: "Config \<Rightarrow> string" where
  "PrivateKeyFile c = CertsDir c @ ''/'' @ TLSPrivateKeyFilename c"

definition CAFile :: "Config \<Rightarrow> string" where
  "CAFile c = CertsDir c @ ''/'' @ TLSCAFilename c"

subsection \<open>Wire entities\<close>

text \<open>
  The structs \<^verbatim>\<open>SigningRequest\<close>, \<^verbatim>\<open>AuthSigningRequest\<close> and \<^verbatim>\<open>SigningResponse\<close> are
  declared in another file of the package. Their fields are the ones \<^verbatim>\<open>controller.go\<close>
  reads and writes (lines 91 to 95, 139 to 154 and 207). Go writes
  \<^verbatim>\<open>response.Result.Bundle.Bundle\<close>; since field names are global here, the field
  \<^verbatim>\<open>Bundle\<close> of the result is \<open>Bundle_r\<close> and the text inside it is \<open>Bundle_b\<close>.
\<close>

record SigningRequest =
  CertificateRequest :: string
  Profile :: string
  Bundle :: bool

record AuthSigningRequest =
  Token :: string
  Request :: SigningRequest

record ResponseError =
  Code :: int
  Message :: string

record BundleResult =
  Bundle_b :: string

record SigningResult =
  Certificate :: string
  Bundle_r :: BundleResult

record SigningResponse =
  Success :: bool
  Result :: SigningResult
  Errors :: "ResponseError list"

text \<open>JSON documents, as far as the request bodies need them.\<close>

datatype json = JString string | JBool bool | JObject "(string \<times> json) list"

text \<open>
  Modelled from the spec: the JSON keys are struct tags on those declarations, which
  \<^verbatim>\<open>controller.go\<close> does not show; the spec gives the bodies as
  \<^verbatim>\<open>{certificate_request, profile, bundle}\<close> and \<^verbatim>\<open>{token, request: {...}}\<close>.
\<close>

definition marshal_SigningRequest :: "SigningRequest \<Rightarrow> json" where
  "marshal_SigningRequest r =
     JObject [(''certificate_request'', JString (CertificateRequest r)),
              (''profile'', JString (Profile r)),
              (''bundle'', JBool (Bundle r))]"

definition marshal_AuthSigningRequest :: "AuthSigningRequest \<Rightarrow> json" where
  "marshal_AuthSigningRequest a =
     JObject [(''token'', JString (Token a)),
              (''request'', marshal_SigningRequest (Request a))]"

subsection \<open>Events and the file system\<close>

datatype level = InfoLevel | ErrorLevel

datatype field = FieldString string | FieldDuration duration

datatype open_flag = O_CREATE | O_TRUNC | O_RDWR

text \<open>
  One event per call that leaves the controller, emitted when the call is made. \<open>Wait\<close>
  marks the return of \<^verbatim>\<open>cmd.Wait()\<close>, \<open>DoneSend\<close> the send statement on \<^verbatim>\<open>doneCh\<close>.
\<close>

datatype event =
    Log level string "(string \<times> field) list"
  | Sleep duration
  | MkdirAll string FileMode
  | CreateCertificateRequest
  | EncodeCertificateRequest string
  | MakeOperationTimeout duration
  | HttpDo string string json
  | OpenFile string "open_flag list" FileMode
  | WriteString string string
  | Close string
  | Start string "string list"
  | AfterFunc duration
  | Kill
  | Wait
  | TimerStop
  | DoneSend
  | Exit int

record regfile =
  content :: string
  mode :: FileMode

text \<open>
  The file system: the regular files by path, the handles this process holds open (by
  path), and the process's umask.
\<close>

record filesys =
  files :: "string \<Rightarrow> regfile option"
  handles :: "string list"
  umask :: FileMode

text \<open>
  \<^verbatim>\<open>os.OpenFile(path, O_CREATE|O_TRUNC|O_RDWR, perm)\<close> when it succeeds: a missing file is
  created empty with mode \<^verbatim>\<open>perm\<close> less the umask; an existing file is cut to length zero
  and keeps its mode. The handle is open afterwards.
\<close>

definition open_create_trunc :: "string \<Rightarrow> FileMode \<Rightarrow> filesys \<Rightarrow> filesys" where
  "open_create_trunc path perm fs =
     fs\<lparr>files := (files fs)(path \<mapsto>
            (case files fs path of
               None \<Rightarrow> \<lparr>content = [], mode = perm AND NOT (umask fs)\<rparr>
             | Some f \<Rightarrow> f\<lparr>content := []\<rparr>)),
        handles := path # handles fs\<rparr>"

text \<open>Bytes appended through a handle whose offset is the end of the file.\<close>

definition write_bytes :: "string \<Rightarrow> string \<Rightarrow> filesys \<Rightarrow> filesys" where
  "write_bytes path s fs =
     (case files fs path of
        None \<Rightarrow> fs
      | Some f \<Rightarrow> fs\<lparr>files := (files fs)(path \<mapsto> f\<lparr>content := content f @ s\<rparr>)\<rparr>)"

definition close_handle :: "string \<Rightarrow> filesys \<Rightarrow> filesys" where
  "close_handle path fs = fs\<lparr>handles := remove1 path (handles fs)\<rparr>"

section \<open>Operations\<close>

subsection \<open>The signing exchange\<close>

text \<open>
  What the network and the decoder do with one request: \<^verbatim>\<open>http.NewRequest\<close> rejects the
  URL, \<^verbatim>\<open>client.Do\<close> fails, \<^verbatim>\<open>ioutil.ReadAll\<close> fails, \<^verbatim>\<open>json.Unmarshal\<close> fails, or a
  response is decoded. These are the four early returns and the final return of
  \<^verbatim>\<open>doSigningRequest\<close> after the body is marshalled; \<^verbatim>\<open>json.Marshal\<close> itself cannot fail
  on a struct of strings and booleans.
\<close>

datatype exchange =
    NewRequestFails err
  | DoFails err
  | ReadAllFails err
  | UnmarshalFails err
  | Decoded SigningResponse

definition doSigningRequest ::
  "Config \<Rightarrow> exchange \<Rightarrow> SigningRequest \<Rightarrow> (err + SigningResponse) \<times> event list" where
  "doSigningRequest c ex request =
     (let auth = (EndpointToken c \<noteq> []);
          url = (if \<not> auth then EndpointURL c @ ''/api/v1/cfssl/sign''
                 else EndpointURL c @ ''/api/v1/cfssl/authsign'');
          encoded = (if \<not> auth then marshal_SigningRequest request
                     else marshal_AuthSigningRequest
                            \<lparr>Token = EndpointToken c, Request = request\<rparr>)
      in case ex of
           NewRequestFails e \<Rightarrow> (Inl e, [])
         | DoFails e \<Rightarrow> (Inl e, [HttpDo ''POST'' url encoded])
         | ReadAllFails e \<Rightarrow> (Inl e, [HttpDo ''POST'' url encoded])
         | UnmarshalFails e \<Rightarrow> (Inl e, [HttpDo ''POST'' url encoded])
         | Decoded response \<Rightarrow> (Inr response, [HttpDo ''POST'' url encoded]))"

subsection \<open>Handling the response\<close>

text \<open>
  The timer's function (lines 176 to 180) and the handler (lines 181 to 183) run in two
  goroutines and use one variable, the \<^verbatim>\<open>err\<close> of line 157. Each side stores into it once
  and then loads it once: the function stores the result of \<^verbatim>\<open>cmd.Process.Kill\<close> and
  loads it for its test; the handler stores the result of \<^verbatim>\<open>cmd.Wait\<close> and loads it for
  the test of line 183. Nothing orders the two sides, so the four accesses can come in
  any of six orders. Each constructor below names one order, \<open>T\<close> for an access of the
  timer's function and \<open>M\<close> for one of the handler.
\<close>

datatype access = TimerStore | TimerLoad | MainStore | MainLoad

datatype interleaving = T_T_M_M | T_M_T_M | T_M_M_T | M_T_T_M | M_T_M_T | M_M_T_T

fun accesses :: "interleaving \<Rightarrow> access list" where
  "accesses T_T_M_M = [TimerStore, TimerLoad, MainStore, MainLoad]"
| "accesses T_M_T_M = [TimerStore, MainStore, TimerLoad, MainLoad]"
| "accesses T_M_M_T = [TimerStore, MainStore, MainLoad, TimerLoad]"
| "accesses M_T_T_M = [MainStore, TimerStore, TimerLoad, MainLoad]"
| "accesses M_T_M_T = [MainStore, TimerStore, MainLoad, TimerLoad]"
| "accesses M_M_T_T = [MainStore, MainLoad, TimerStore, TimerLoad]"

text \<open>
  What the operating system does during one call of \<^verbatim>\<open>handleCertificateResponse\<close>:
  the error of \<^verbatim>\<open>os.OpenFile\<close>; the error of \<^verbatim>\<open>file.WriteString\<close> with the number of
  bytes that went out before it; the error of \<^verbatim>\<open>cmd.Start\<close>; whether the deadline of
  \<^verbatim>\<open>time.AfterFunc\<close> passes before \<^verbatim>\<open>timer.Stop\<close> runs; the error of
  \<^verbatim>\<open>cmd.Process.Kill\<close>; the error of \<^verbatim>\<open>cmd.Wait\<close> for a command that started; and, when
  the timer fires, the order of the accesses to \<^verbatim>\<open>err\<close>.
\<close>

record handler_env =
  open_err :: "err option"
  write_err :: "(nat \<times> err) option"
  start_err :: "err option"
  timer_fires :: bool
  kill_err :: "err option"
  wait_err :: "err option"
  interleaving :: interleaving

text \<open>
  One access to \<^verbatim>\<open>err\<close>, on the current content of the variable and the events so far.
  \<open>Kill\<close> marks the return of \<^verbatim>\<open>cmd.Process.Kill\<close> and the store of its result (line 177),
  \<open>Wait\<close> the return of \<^verbatim>\<open>cmd.Wait\<close> and the store of its result (line 181). The load of
  the timer's function logs when it finds an error (lines 177 to 179). The load of the
  handler comes after \<^verbatim>\<open>timer.Stop\<close> and logs the error it finds (lines 182 to 188).
\<close>

fun access_step ::
  "Config \<Rightarrow> handler_env \<Rightarrow> err option \<times> event list \<Rightarrow> access \<Rightarrow> err option \<times> event list" where
  "access_step c env (v, ev) TimerStore = (kill_err env, ev @ [Kill])"
| "access_step c env (v, ev) TimerLoad =
     (v, ev @ (case v of
                 Some e \<Rightarrow> [Log ErrorLevel
                             ''external command took too long, operation timed out'' []]
               | None \<Rightarrow> []))"
| "access_step c env (v, ev) MainStore = (wait_err env, ev @ [Wait])"
| "access_step c env (v, ev) MainLoad =
     (v, ev @ TimerStop #
           (case v of
              Some e \<Rightarrow> [Log ErrorLevel ''error calling external command''
                           [(''command'', FieldString (ExecCommand c)),
                            (''error'', FieldString e)]]
            | None \<Rightarrow> []))"

text \<open>
  Lines 168 to 189, entered when \<^verbatim>\<open>ExecCommand\<close> is not empty. The error of \<^verbatim>\<open>cmd.Start\<close>
  is dropped and the timer is armed in any case. A command that did not start has a nil
  \<^verbatim>\<open>Process\<close>: \<^verbatim>\<open>cmd.Wait\<close> returns at once with \<^verbatim>\<open>exec: not started\<close>, and the timer's
  function, should it run, panics on \<^verbatim>\<open>cmd.Process.Kill()\<close>. When the timer fires on a
  command that started, the four accesses to \<^verbatim>\<open>err\<close> run in the order the environment
  gives, from \<^verbatim>\<open>err\<close> being nil (the open of line 157 succeeded). The timer's function is
  taken to finish before the handler returns. When the timer does not fire, its function
  never runs and only the handler touches \<^verbatim>\<open>err\<close>.
\<close>

definition externalCommand :: "Config \<Rightarrow> handler_env \<Rightarrow> unit result \<times> event list" where
  "externalCommand c env =
     (let ev = [Log InfoLevel ''calling external command''
                  [(''command'', FieldString (ExecCommand c)),
                   (''timeout'', FieldDuration (Timeout c))],
                Start (ExecCommand c) [CertificateFile c, PrivateKeyFile c, CAFile c],
                AfterFunc (Timeout c)];
          failed = (\<lambda>e. [Log ErrorLevel ''error calling external command''
                          [(''command'', FieldString (ExecCommand c)),
                           (''error'', FieldString e)]])
      in if timer_fires env then
           (case start_err env of
              Some _ \<Rightarrow> (Panic NilPointerDereference, ev)
            | None \<Rightarrow>
                (Return (),
                 snd (foldl (access_step c env) (None, ev) (accesses (interleaving env)))))
         else
           (let err = (case start_err env of
                         Some _ \<Rightarrow> Some ''exec: not started''
                       | None \<Rightarrow> wait_err env)
            in (Return (),
                ev @ [Wait, TimerStop]
                @ (case err of Some e \<Rightarrow> failed e | None \<Rightarrow> []))))"

text \<open>
  \<^verbatim>\<open>handleCertificateResponse\<close>, lines 137 to 192. The deferred \<^verbatim>\<open>file.Close()\<close> runs on
  every return after a successful open. A panic of the timer's function ends the process
  from another goroutine, so the deferred call does not run then.
\<close>

definition handleCertificateResponse ::
  "Config \<Rightarrow> handler_env \<Rightarrow> SigningResponse \<Rightarrow> filesys
     \<Rightarrow> err option result \<times> filesys \<times> event list" where
  "handleCertificateResponse c env response fs =
     (if \<not> Success response then
        (case Errors response of
           [] \<Rightarrow> (Panic IndexOutOfRange, fs, [])
         | e # _ \<Rightarrow>
             (Return (Some (''unsuccessful operation, errors: '' @ Message e)), fs, []))
      else if Certificate (Result response) = [] then
        (Return (Some ''no certificate found in the response''), fs, [])
      else
        (let path = CertificateFile c;
             content0 = (if Bundle_b (Bundle_r (Result response)) \<noteq> []
                         then Bundle_b (Bundle_r (Result response))
                         else Certificate (Result response));
             ev1 = [Log InfoLevel ''writing the certificate to disk''
                      [(''path'', FieldString path)],
                    OpenFile path [O_CREATE, O_TRUNC, O_RDWR] mode_0600]
         in case open_err env of
              Some e \<Rightarrow> (Return (Some e), fs, ev1)
            | None \<Rightarrow>
                (let fs1 = open_create_trunc path mode_0600 fs;
                     ev2 = ev1 @ [WriteString path content0]
                 in case write_err env of
                      Some (n, e) \<Rightarrow>
                        (Return (Some e),
                         close_handle path (write_bytes path (take n content0) fs1),
                         ev2 @ [Close path])
                    | None \<Rightarrow>
                        (let fs2 = write_bytes path content0 fs1
                         in if ExecCommand c \<noteq> [] then
                              (case externalCommand c env of
                                 (Panic p, ev3) \<Rightarrow> (Panic p, fs2, ev2 @ ev3)
                               | (Return _, ev3) \<Rightarrow>
                                   (Return None, close_handle path fs2,
                                    ev2 @ ev3 @ [Close path]))
                            else (Return None, close_handle path fs2, ev2 @ [Close path])))))"

subsection \<open>The rotation loop\<close>

text \<open>\<^verbatim>\<open>strings.Join\<close>.\<close>

fun Join :: "string list \<Rightarrow> string \<Rightarrow> string" where
  "Join [] sep = []"
| "Join [x] sep = x"
| "Join (x # y # ys) sep = x @ sep @ Join (y # ys) sep"

text \<open>
  One pass through the body of the \<^verbatim>\<open>for\<close> loop of \<^verbatim>\<open>run\<close> meets one signing exchange
  and one set of operating-system outcomes.
\<close>

record attempt_env =
  signing :: exchange
  handling :: handler_env

text \<open>
  Modelled from the spec: the function \<^verbatim>\<open>makeOperationTimeout\<close>, which builds \<^verbatim>\<open>doneCh\<close>
  and starts the watchdog behind it, is not in \<^verbatim>\<open>controller.go\<close> or \<^verbatim>\<open>main.go\<close>. The spec
  has the watchdog race the success signal of the first acquisition against the
  operational timeout and stop on the signal; it calls the signal meaningful during the
  initial acquisition only; and it has the loop go on after every success, to the exit
  in one-shot mode and to the sleep of the rotation interval otherwise. So the send of
  line 121 is an event after which the pass goes on.
\<close>

definition signal_success :: "event list" where
  "signal_success = [DoneSend]"

text \<open>How the process stands when the observed attempts are used up.\<close>

datatype outcome =
    Running
  | Exited int
  | Crashed panic
  | Returned err

text \<open>The log line at the head of each pass, lines 83 to 88.\<close>

definition attempting :: "Config \<Rightarrow> event" where
  "attempting c =
     Log InfoLevel ''attempting to acquire certificate from ca''
       [(''domains'', FieldString (Join (Domains c) '','')),
        (''endpoint'', FieldString (EndpointURL c)),
        (''expiry'', FieldDuration (Expiry c)),
        (''profile'', FieldString (EndpointProfile c))]"

text \<open>The request of each pass, lines 91 to 95, around the encoded text built at start-up.\<close>

definition signing_request :: "Config \<Rightarrow> string \<Rightarrow> SigningRequest" where
  "signing_request c encoded =
     \<lparr>CertificateRequest = encoded, Profile = EndpointProfile c, Bundle = True\<rparr>"

text \<open>
  The body of the loop, lines 83 to 132. \<open>None\<close> means the loop goes round again;
  \<open>Some out\<close> means this pass is the last one.
\<close>

definition attempt ::
  "Config \<Rightarrow> string \<Rightarrow> attempt_env \<Rightarrow> filesys \<Rightarrow> outcome option \<times> filesys \<times> event list" where
  "attempt c encoded env fs =
     (let ev0 = [attempting c]
      in case doSigningRequest c (signing env) (signing_request c encoded) of
           (Inl e, ev1) \<Rightarrow>
             (None, fs,
              ev0 @ ev1 @ [Log ErrorLevel ''failed to retrieve certificate signing''
                             [(''error'', FieldString e)],
                           Sleep (5 * Second)])
         | (Inr response, ev1) \<Rightarrow>
             (case handleCertificateResponse c (handling env) response fs of
                (Panic p, fs', ev2) \<Rightarrow> (Some (Crashed p), fs', ev0 @ ev1 @ ev2)
              | (Return (Some e), fs', ev2) \<Rightarrow>
                  (None, fs',
                   ev0 @ ev1 @ ev2
                   @ [Log ErrorLevel ''failed to proccess certificate response''
                        [(''error'', FieldString e)],
                      Sleep (5 * Second)])
              | (Return None, fs', ev2) \<Rightarrow>
                  (let ev3 = ev0 @ ev1 @ ev2
                         @ [Log InfoLevel ''successfully wrote the tls certificates''
                              [(''certificate'', FieldString (CertificateFile c)),
                               (''private_key'', FieldString (PrivateKeyFile c))]]
                         @ signal_success
                   in if Onetime c then
                        (Some (Exited 0), fs',
                         ev3 @ [Log InfoLevel ''onetime mode enabled, exiting the service'' [],
                                Exit 0])
                      else
                        (None, fs',
                         ev3 @ [Log InfoLevel ''going to sleep until next certificate rotation''
                                  [(''duration'', FieldDuration (Expiry c))],
                                Sleep (Expiry c)]))))"

text \<open>
  The loop never ends by itself, so it is run against the finite list of attempts
  observed so far: \<open>Running\<close> says that the loop is about to start its next pass.
\<close>

fun run_loop ::
  "Config \<Rightarrow> string \<Rightarrow> attempt_env list \<Rightarrow> filesys \<Rightarrow> outcome \<times> filesys \<times> event list" where
  "run_loop c encoded [] fs = (Running, fs, [])"
| "run_loop c encoded (env # envs) fs =
     (case attempt c encoded env fs of
        (Some out, fs', ev) \<Rightarrow> (out, fs', ev)
      | (None, fs', ev) \<Rightarrow>
          (case run_loop c encoded envs fs' of
             (out, fs'', ev') \<Rightarrow> (out, fs'', ev @ ev')))"

text \<open>
  What start-up meets: the error of \<^verbatim>\<open>os.MkdirAll\<close>, and the results of
  \<^verbatim>\<open>createCertificateRequest\<close> (a key and a request, or an error) and of
  \<^verbatim>\<open>encodeCertificateRequest\<close> (the PEM text, or an error). Both functions live in
  another file of the package and are parameters here.
\<close>

record startup_env =
  mkdir_err :: "err option"
  csr_result :: "err + (string \<times> string)"
  encode_result :: "err + string"

text \<open>\<^verbatim>\<open>run\<close>, lines 61 to 134.\<close>

definition run ::
  "Config \<Rightarrow> startup_env \<Rightarrow> attempt_env list \<Rightarrow> filesys \<Rightarrow> outcome \<times> filesys \<times> event list" where
  "run c senv envs fs =
     (let ev1 = [MkdirAll (CertsDir c) mode_0770]
      in case mkdir_err senv of
           Some e \<Rightarrow> (Returned (''failed to ensure certficate directory: '' @ e), fs, ev1)
         | None \<Rightarrow>
             (let ev2 = ev1 @ [CreateCertificateRequest]
              in case csr_result senv of
                   Inl e \<Rightarrow> (Returned (''failed to generate csr: '' @ e), fs, ev2)
                 | Inr (key, csr) \<Rightarrow>
                     (let ev3 = ev2 @ [EncodeCertificateRequest csr]
                      in case encode_result senv of
                           Inl e \<Rightarrow> (Returned (''failed to encode csr: '' @ e), fs, ev3)
                         | Inr encoded \<Rightarrow>
                             (let ev4 = ev3 @ [MakeOperationTimeout (Timeout c)]
                              in case run_loop c encoded envs fs of
                                   (out, fs', ev) \<Rightarrow> (out, fs', ev4 @ ev)))))"

section \<open>Observations on results and events\<close>

text \<open>The parts of a result, and whether the handler came back with an error.\<close>

definition events_of :: "'a \<times> filesys \<times> event list \<Rightarrow> event list" where
  "events_of r = snd (snd r)"

definition filesys_of :: "'a \<times> filesys \<times> event list \<Rightarrow> filesys" where
  "filesys_of r = fst (snd r)"

fun is_error :: "err option result \<Rightarrow> bool" where
  "is_error (Return (Some e)) = True"
| "is_error (Return None) = False"
| "is_error (Panic p) = False"

text \<open>The calls on files among the events, and the durations slept, in order.\<close>

fun is_file_call :: "event \<Rightarrow> bool" where
  "is_file_call (OpenFile p fl m) = True"
| "is_file_call (WriteString p s) = True"
| "is_file_call (Close p) = True"
| "is_file_call e = False"

definition file_calls :: "event list \<Rightarrow> event list" where
  "file_calls ev = filter is_file_call ev"

fun sleep_of :: "event \<Rightarrow> duration option" where
  "sleep_of (Sleep d) = Some d"
| "sleep_of e = None"

definition sleeps :: "event list \<Rightarrow> duration list" where
  "sleeps ev = List.map_filter sleep_of ev"

text \<open>
  The requests built from the key: calls of \<^verbatim>\<open>createCertificateRequest\<close> and of
  \<^verbatim>\<open>encodeCertificateRequest\<close> among the events.
\<close>

fun is_construction :: "event \<Rightarrow> bool" where
  "is_construction CreateCertificateRequest = True"
| "is_construction (EncodeCertificateRequest csr) = True"
| "is_construction e = False"

definition constructions :: "event list \<Rightarrow> event list" where
  "constructions ev = filter is_construction ev"

text \<open>
  The encoded request text inside a body, plain or wrapped with a token, and the texts
  posted by a run, in order.
\<close>

fun csr_of_body :: "json \<Rightarrow> string option" where
  "csr_of_body (JObject ((k, JString s) # kvs)) =
     (if k = ''certificate_request'' then Some s
      else if k = ''token'' then
        (case kvs of
           [(k', JObject ((k'', JString s') # kvs'))] \<Rightarrow>
             (if k' = ''request'' \<and> k'' = ''certificate_request'' then Some s' else None)
         | _ \<Rightarrow> None)
      else None)"
| "csr_of_body j = None"

fun posted_csr :: "event \<Rightarrow> string option option" where
  "posted_csr (HttpDo m u b) = Some (csr_of_body b)"
| "posted_csr e = None"

definition posted_csrs :: "event list \<Rightarrow> string option list" where
  "posted_csrs ev = List.map_filter posted_csr ev"

text \<open>
  The handler returns an error: the response is unsuccessful and names an error, or it
  is successful and carries no certificate, or the file cannot be opened, or the write
  fails.
\<close>

definition handling_fails :: "handler_env \<Rightarrow> SigningResponse \<Rightarrow> bool" where
  "handling_fails env r =
     (if \<not> Success r then Errors r \<noteq> []
      else Certificate (Result r) = [] \<or> open_err env \<noteq> None \<or> write_err env \<noteq> None)"

text \<open>The attempt fails: the signing exchange fails or the handler returns an error.\<close>

definition attempt_fails :: "attempt_env \<Rightarrow> bool" where
  "attempt_fails env =
     (case signing env of
        Decoded r \<Rightarrow> handling_fails (handling env) r
      | _ \<Rightarrow> True)"

text \<open>The attempt fails in the write itself, after the file was opened.\<close>

definition write_fails :: "attempt_env \<Rightarrow> bool" where
  "write_fails env =
     (case signing env of
        Decoded r \<Rightarrow>
          Success r \<and> Certificate (Result r) \<noteq> [] \<and> open_err (handling env) = None
          \<and> write_err (handling env) \<noteq> None
      | _ \<Rightarrow> False)"

text \<open>The response is valid and its text reaches the file.\<close>

definition persisted :: "handler_env \<Rightarrow> SigningResponse \<Rightarrow> bool" where
  "persisted env r =
     (Success r \<and> Certificate (Result r) \<noteq> [] \<and> open_err env = None \<and> write_err env = None)"

text \<open>The timer's function runs on a command that never started.\<close>

definition kills_unstarted :: "Config \<Rightarrow> handler_env \<Rightarrow> bool" where
  "kills_unstarted c env = (ExecCommand c \<noteq> [] \<and> start_err env \<noteq> None \<and> timer_fires env)"

text \<open>The attempt succeeds: a response is decoded and the handler returns nil.\<close>

definition attempt_succeeds :: "Config \<Rightarrow> attempt_env \<Rightarrow> bool" where
  "attempt_succeeds c env =
     (case signing env of
        Decoded r \<Rightarrow> persisted (handling env) r \<and> \<not> kills_unstarted c (handling env)
      | _ \<Rightarrow> False)"

text \<open>
  An event that is neither a sleep, nor a request to the endpoint, nor the building of
  a certificate request.
\<close>

definition local_event :: "event \<Rightarrow> bool" where
  "local_event e = (sleep_of e = None \<and> posted_csr e = None \<and> \<not> is_construction e)"

text \<open>The events of a pass up to the return of \<^verbatim>\<open>doSigningRequest\<close>.\<close>

definition prelude :: "Config \<Rightarrow> exchange \<Rightarrow> string \<Rightarrow> event list" where
  "prelude c ex encoded = attempting c # snd (doSigningRequest c ex (signing_request c encoded))"

text \<open>
  The events of the race: what the four accesses to \<^verbatim>\<open>err\<close> leave behind in a given
  order, and the content of \<^verbatim>\<open>err\<close> that the handler loads on line 183.
\<close>

definition race_events :: "Config \<Rightarrow> handler_env \<Rightarrow> interleaving \<Rightarrow> event list" where
  "race_events c env i = snd (foldl (access_step c env) (None, []) (accesses i))"

fun main_loads :: "handler_env \<Rightarrow> interleaving \<Rightarrow> err option" where
  "main_loads env T_T_M_M = wait_err env"
| "main_loads env T_M_T_M = wait_err env"
| "main_loads env T_M_M_T = wait_err env"
| "main_loads env M_T_T_M = kill_err env"
| "main_loads env M_T_M_T = kill_err env"
| "main_loads env M_M_T_T = wait_err env"

section \<open>Sample inputs\<close>

definition cfg0 :: Config where
  "cfg0 = \<lparr>CertsDir = ''/certs'', Country = ''GB'', Domains = [''a.svc'', ''b.svc''],
           EndpointProfile = ''server'', EndpointToken = [],
           EndpointURL = ''https://ca.kube-tls.svc.cluster.local'', ExecCommand = [],
           Expiry = 90 * 24 * 3600 * Second, Locality = ''London'', Onetime = False,
           Organization = ''ACP Homeoffice'', Province = ''London'', Size = 2048,
           Timeout = 60 * Second, TLSCAPath = [], TLSCAFilename = ''tls-ca.pem'',
           TLSCertificateFilename = ''tls.pem'', TLSPrivateKeyFilename = ''tls-key.pem'',
           Verbose = False\<rparr>"

definition fs0 :: filesys where
  "fs0 = \<lparr>files = (\<lambda>p. None), handles = [], umask = 0 * 64 + 2 * 8 + 2\<rparr>"

text \<open>A certificate file left by someone else, readable by group and others (mode 0644).\<close>

definition mode_0644 :: FileMode where
  "mode_0644 = 6 * 64 + 4 * 8 + 4"

definition fs_old :: filesys where
  "fs_old = \<lparr>files = (\<lambda>p. if p = ''/certs/tls.pem''
                               then Some \<lparr>content = ''OLD'', mode = mode_0644\<rparr> else None),
             handles = [], umask = 0 * 64 + 2 * 8 + 2\<rparr>"

definition henv_ok :: handler_env where
  "henv_ok = \<lparr>open_err = None, write_err = None, start_err = None, timer_fires = False,
              kill_err = None, wait_err = None, interleaving = T_T_M_M\<rparr>"

definition resp_bundle :: SigningResponse where
  "resp_bundle = \<lparr>Success = True,
                   Result = \<lparr>Certificate = ''LEAF'', Bundle_r = \<lparr>Bundle_b = ''LEAF+CHAIN''\<rparr>\<rparr>,
                   Errors = []\<rparr>"

definition resp_leaf :: SigningResponse where
  "resp_leaf = \<lparr>Success = True,
                 Result = \<lparr>Certificate = ''LEAF'', Bundle_r = \<lparr>Bundle_b = []\<rparr>\<rparr>,
                 Errors = []\<rparr>"

definition resp_failed :: SigningResponse where
  "resp_failed = \<lparr>Success = False,
                   Result = \<lparr>Certificate = [], Bundle_r = \<lparr>Bundle_b = []\<rparr>\<rparr>,
                   Errors = [\<lparr>Code = 5200, Message = ''invalid token''\<rparr>,
                             \<lparr>Code = 1, Message = ''second''\<rparr>]\<rparr>"

definition resp_no_errors :: SigningResponse where
  "resp_no_errors = \<lparr>Success = False,
                      Result = \<lparr>Certificate = [], Bundle_r = \<lparr>Bundle_b = []\<rparr>\<rparr>,
                      Errors = []\<rparr>"

definition env_unreachable :: attempt_env where
  "env_unreachable = \<lparr>signing = DoFails ''connection refused'', handling = henv_ok\<rparr>"

definition env_ok :: attempt_env where
  "env_ok = \<lparr>signing = Decoded resp_bundle, handling = henv_ok\<rparr>"

definition senv_ok :: startup_env where
  "senv_ok = \<lparr>mkdir_err = None, csr_result = Inr (''KEY'', ''CSR''),
              encode_result = Inr ''PEM''\<rparr>"

section \<open>The branches of the handler\<close>

text \<open>
  The handler has six ways through: the two rejections of an unsuccessful response
  (without and with an error entry), the rejection of a missing certificate, the failed
  open, the failed write, and the write that goes through. Each lemma below evaluates
  the handler on one of them.
\<close>

lemma externalCommand_result:
  "fst (externalCommand c env) =
     (if timer_fires env \<and> start_err env \<noteq> None then Panic NilPointerDereference else Return ())"
  by (simp add: externalCommand_def Let_def split: option.splits)

lemma foldl_access_step:
  "foldl (access_step c env) (v, ev) as =
     (fst (foldl (access_step c env) (v, []) as),
      ev @ snd (foldl (access_step c env) (v, []) as))"
proof (induction as arbitrary: v ev)
  case Nil
  show ?case by simp
next
  case (Cons a as)
  obtain v' d where a: "access_step c env (v, []) a = (v', d)"
    by (cases "access_step c env (v, []) a")
  have b: "access_step c env (v, ev) a = (v', ev @ d)"
    using a by (cases a) auto
  have "foldl (access_step c env) (v, ev) (a # as) = foldl (access_step c env) (v', ev @ d) as"
    by (simp add: b)
  also have "\<dots> = (fst (foldl (access_step c env) (v', []) as),
                   (ev @ d) @ snd (foldl (access_step c env) (v', []) as))"
    by (rule Cons.IH)
  finally have l: "foldl (access_step c env) (v, ev) (a # as) =
      (fst (foldl (access_step c env) (v', []) as),
       (ev @ d) @ snd (foldl (access_step c env) (v', []) as))" .
  have "foldl (access_step c env) (v, []) (a # as) = foldl (access_step c env) (v', d) as"
    by (simp add: a)
  also have "\<dots> = (fst (foldl (access_step c env) (v', []) as),
                   d @ snd (foldl (access_step c env) (v', []) as))"
    by (rule Cons.IH)
  finally have r: "foldl (access_step c env) (v, []) (a # as) =
      (fst (foldl (access_step c env) (v', []) as),
       d @ snd (foldl (access_step c env) (v', []) as))" .
  show ?case unfolding l r by simp
qed

lemma race_events_prefix:
  "snd (foldl (access_step c env) (None, ev) (accesses i)) = ev @ race_events c env i"
  by (subst foldl_access_step) (simp add: race_events_def)

text \<open>The six orders, written out.\<close>

lemma race_events_cases:
  "race_events c env T_T_M_M =
     Kill # (case kill_err env of
               Some e \<Rightarrow> [Log ErrorLevel
                           ''external command took too long, operation timed out'' []]
             | None \<Rightarrow> [])
     @ Wait # TimerStop #
       (case wait_err env of
          Some e \<Rightarrow> [Log ErrorLevel ''error calling external command''
                       [(''command'', FieldString (ExecCommand c)), (''error'', FieldString e)]]
        | None \<Rightarrow> [])"
  "race_events c env T_M_T_M =
     Kill # Wait #
     (case wait_err env of
        Some e \<Rightarrow> [Log ErrorLevel
                    ''external command took too long, operation timed out'' []]
      | None \<Rightarrow> [])
     @ TimerStop #
       (case wait_err env of
          Some e \<Rightarrow> [Log ErrorLevel ''error calling external command''
                       [(''command'', FieldString (ExecCommand c)), (''error'', FieldString e)]]
        | None \<Rightarrow> [])"
  "race_events c env T_M_M_T =
     Kill # Wait # TimerStop #
     (case wait_err env of
        Some e \<Rightarrow> [Log ErrorLevel ''error calling external command''
                     [(''command'', FieldString (ExecCommand c)), (''error'', FieldString e)]]
      | None \<Rightarrow> [])
     @ (case wait_err env of
          Some e \<Rightarrow> [Log ErrorLevel
                      ''external command took too long, operation timed out'' []]
        | None \<Rightarrow> [])"
  "race_events c env M_T_T_M =
     Wait # Kill #
     (case kill_err env of
        Some e \<Rightarrow> [Log ErrorLevel
                    ''external command took too long, operation timed out'' []]
      | None \<Rightarrow> [])
     @ TimerStop #
       (case kill_err env of
          Some e \<Rightarrow> [Log ErrorLevel ''error calling external command''
                       [(''command'', FieldString (ExecCommand c)), (''error'', FieldString e)]]
        | None \<Rightarrow> [])"
  "race_events c env M_T_M_T =
     Wait # Kill # TimerStop #
     (case kill_err env of
        Some e \<Rightarrow> [Log ErrorLevel ''error calling external command''
                     [(''command'', FieldString (ExecCommand c)), (''error'', FieldString e)]]
      | None \<Rightarrow> [])
     @ (case kill_err env of
          Some e \<Rightarrow> [Log ErrorLevel
                      ''external command took too long, operation timed out'' []]
        | None \<Rightarrow> [])"
  "race_events c env M_M_T_T =
     Wait # TimerStop #
     (case wait_err env of
        Some e \<Rightarrow> [Log ErrorLevel ''error calling external command''
                     [(''command'', FieldString (ExecCommand c)), (''error'', FieldString e)]]
      | None \<Rightarrow> [])
     @ Kill #
       (case kill_err env of
          Some e \<Rightarrow> [Log ErrorLevel
                      ''external command took too long, operation timed out'' []]
        | None \<Rightarrow> [])"
  by (simp_all add: race_events_def split: option.splits)

lemma race_events_file_calls: "file_calls (race_events c env i) = []"
  by (cases i) (simp_all add: race_events_cases file_calls_def split: option.splits)

lemma race_events_kill: "Kill \<in> set (race_events c env i)"
  by (cases i) (simp_all add: race_events_cases)

text \<open>
  The handler logs the failure of the command exactly when the content of \<^verbatim>\<open>err\<close> that it
  loads is an error.
\<close>

lemma race_events_logged:
  "(\<exists>e. Log ErrorLevel ''error calling external command''
           [(''command'', FieldString (ExecCommand c)), (''error'', FieldString e)]
         \<in> set (race_events c env i))
   \<longleftrightarrow> main_loads env i \<noteq> None"
  by (cases i; cases "wait_err env"; cases "kill_err env")
     (simp_all add: race_events_cases)

lemma externalCommand_file_calls: "file_calls (snd (externalCommand c env)) = []"
  by (simp add: externalCommand_def file_calls_def Let_def race_events_prefix
        race_events_file_calls [unfolded file_calls_def] split: option.splits)

lemma handler_cases [case_names NoErrors Unsuccessful NoCertificate OpenFails WriteFails Persisted]:
  obtains "\<not> Success r" "Errors r = []"
  | e es where "\<not> Success r" "Errors r = e # es"
  | "Success r" "Certificate (Result r) = []"
  | e where "Success r" "Certificate (Result r) \<noteq> []" "open_err env = Some e"
  | n e where "Success r" "Certificate (Result r) \<noteq> []" "open_err env = None"
      "write_err env = Some (n, e)"
  | "persisted env r"
proof (cases "Success r")
  case False
  then show ?thesis using that(1,2) by (cases "Errors r") auto
next
  case True
  then show ?thesis using that(3-6)
    by (cases "open_err env"; cases "write_err env") (auto simp add: persisted_def)
qed

lemma handler_no_errors:
  "\<not> Success r \<Longrightarrow> Errors r = [] \<Longrightarrow>
     handleCertificateResponse c env r fs = (Panic IndexOutOfRange, fs, [])"
  by (simp add: handleCertificateResponse_def)

lemma handler_unsuccessful:
  "\<not> Success r \<Longrightarrow> Errors r = e # es \<Longrightarrow>
     handleCertificateResponse c env r fs =
       (Return (Some (''unsuccessful operation, errors: '' @ Message e)), fs, [])"
  by (simp add: handleCertificateResponse_def)

lemma handler_no_certificate:
  "Success r \<Longrightarrow> Certificate (Result r) = [] \<Longrightarrow>
     handleCertificateResponse c env r fs =
       (Return (Some ''no certificate found in the response''), fs, [])"
  by (simp add: handleCertificateResponse_def)

lemma handler_open_fails:
  "Success r \<Longrightarrow> Certificate (Result r) \<noteq> [] \<Longrightarrow> open_err env = Some e \<Longrightarrow>
     handleCertificateResponse c env r fs =
       (Return (Some e), fs,
        [Log InfoLevel ''writing the certificate to disk''
           [(''path'', FieldString (CertificateFile c))],
         OpenFile (CertificateFile c) [O_CREATE, O_TRUNC, O_RDWR] mode_0600])"
  by (simp add: handleCertificateResponse_def Let_def)

lemma handler_write_fails:
  "Success r \<Longrightarrow> Certificate (Result r) \<noteq> [] \<Longrightarrow> open_err env = None \<Longrightarrow>
   write_err env = Some (n, e) \<Longrightarrow>
     handleCertificateResponse c env r fs =
       (Return (Some e),
        close_handle (CertificateFile c)
          (write_bytes (CertificateFile c)
             (take n (if Bundle_b (Bundle_r (Result r)) \<noteq> []
                      then Bundle_b (Bundle_r (Result r)) else Certificate (Result r)))
             (open_create_trunc (CertificateFile c) mode_0600 fs)),
        [Log InfoLevel ''writing the certificate to disk''
           [(''path'', FieldString (CertificateFile c))],
         OpenFile (CertificateFile c) [O_CREATE, O_TRUNC, O_RDWR] mode_0600,
         WriteString (CertificateFile c)
           (if Bundle_b (Bundle_r (Result r)) \<noteq> []
            then Bundle_b (Bundle_r (Result r)) else Certificate (Result r)),
         Close (CertificateFile c)])"
  by (simp add: handleCertificateResponse_def Let_def)

lemma handler_persisted:
  "persisted env r \<Longrightarrow>
     handleCertificateResponse c env r fs =
       (if kills_unstarted c env then Panic NilPointerDereference else Return None,
        (if kills_unstarted c env then (\<lambda>x. x) else close_handle (CertificateFile c))
          (write_bytes (CertificateFile c)
             (if Bundle_b (Bundle_r (Result r)) \<noteq> []
              then Bundle_b (Bundle_r (Result r)) else Certificate (Result r))
             (open_create_trunc (CertificateFile c) mode_0600 fs)),
        [Log InfoLevel ''writing the certificate to disk''
           [(''path'', FieldString (CertificateFile c))],
         OpenFile (CertificateFile c) [O_CREATE, O_TRUNC, O_RDWR] mode_0600,
         WriteString (CertificateFile c)
           (if Bundle_b (Bundle_r (Result r)) \<noteq> []
            then Bundle_b (Bundle_r (Result r)) else Certificate (Result r))]
        @ (if ExecCommand c \<noteq> [] then snd (externalCommand c env) else [])
        @ (if kills_unstarted c env then [] else [Close (CertificateFile c)]))"
  using externalCommand_result [of c env]
  by (cases "externalCommand c env")
     (simp add: handleCertificateResponse_def persisted_def kills_unstarted_def Let_def
        split: result.splits)

text \<open>The file after the open and the write, and the handles after the close.\<close>

lemma files_after_write:
  "files (write_bytes p s (open_create_trunc p m fs)) p =
     Some ((case files fs p of
              None \<Rightarrow> \<lparr>content = [], mode = m AND NOT (umask fs)\<rparr>
            | Some f \<Rightarrow> f\<lparr>content := []\<rparr>)\<lparr>content := s\<rparr>)"
  by (simp add: write_bytes_def open_create_trunc_def split: option.splits)

lemma files_close_handle: "files (close_handle p fs) = files fs"
  by (simp add: close_handle_def)

lemma handles_after_write:
  "handles (close_handle p (write_bytes p s (open_create_trunc p m fs))) = handles fs"
  by (simp add: write_bytes_def open_create_trunc_def close_handle_def split: option.splits)

lemma mode_0600_value: "mode_0600 = 4 * 64 + 2 * 64"
  by (simp add: mode_0600_def)

lemma owner_only: "(mode_0600 AND NOT u) AND (7 * 8 + 7) = (0 :: FileMode)"
proof -
  have "mode_0600 AND (7 * 8 + 7) = (0 :: FileMode)"
    by (simp add: mode_0600_def)
  then have "(mode_0600 AND (7 * 8 + 7)) AND NOT u = 0" by simp
  then show ?thesis by (simp add: and.assoc and.commute and.left_commute)
qed

section \<open>Properties of the response handler\<close>

text \<open>
  Claim C9. The index expression \<^verbatim>\<open>response.Errors[0]\<close> on line 140 is unguarded: the
  handler panics with an index out of range exactly when the response is unsuccessful
  and its list of errors is empty. So the error branch is safe exactly under the
  precondition that an unsuccessful response carries at least one error entry.
\<close>

theorem empty_errors_panics:
  "fst (handleCertificateResponse c env r fs) = Panic IndexOutOfRange
     \<longleftrightarrow> (\<not> Success r \<and> Errors r = [])"
  by (rule handler_cases [where r = r and env = env])
     (simp_all add: handler_no_errors handler_unsuccessful handler_no_certificate
        handler_open_fails handler_write_fails handler_persisted persisted_def)

theorem empty_errors_panics_witness:
  "fst (handleCertificateResponse cfg0 henv_ok resp_no_errors fs0) = Panic IndexOutOfRange
   \<and> fst (handleCertificateResponse cfg0 henv_ok resp_failed fs0)
       = Return (Some ''unsuccessful operation, errors: invalid token'')"
  using empty_errors_panics [of cfg0 henv_ok resp_no_errors fs0]
  by (simp add: resp_no_errors_def resp_failed_def handleCertificateResponse_def)

text \<open>
  Claim C1, as amended. For every response that carries at least one error entry
  whenever its success flag is false: the handler returns an error without any call on
  the certificate file, and leaves the file system as it was, exactly when the success
  flag is false or the certificate field is empty; when the flag is false the error is
  \<^verbatim>\<open>unsuccessful operation, errors: \<close> followed by the message of the first entry, and
  for an empty certificate it is \<^verbatim>\<open>no certificate found in the response\<close>; in all other
  cases the handler goes on to open the certificate file. There an error of the open is
  returned as it is, with the file system as it was, and an error of the write is
  returned as it is.
\<close>

theorem rejection_before_any_file_call:
  assumes "Success r \<or> Errors r \<noteq> []"
  shows "((is_error (fst (handleCertificateResponse c env r fs))
           \<and> file_calls (events_of (handleCertificateResponse c env r fs)) = []
           \<and> filesys_of (handleCertificateResponse c env r fs) = fs)
          \<longleftrightarrow> (\<not> Success r \<or> Certificate (Result r) = []))
       \<and> (\<forall>e es. \<not> Success r \<and> Errors r = e # es \<longrightarrow>
            fst (handleCertificateResponse c env r fs)
              = Return (Some (''unsuccessful operation, errors: '' @ Message e)))
       \<and> (Success r \<and> Certificate (Result r) \<noteq> [] \<longrightarrow>
            OpenFile (CertificateFile c) [O_CREATE, O_TRUNC, O_RDWR] mode_0600
              \<in> set (events_of (handleCertificateResponse c env r fs)))
       \<and> (Success r \<and> Certificate (Result r) = [] \<longrightarrow>
            fst (handleCertificateResponse c env r fs)
              = Return (Some ''no certificate found in the response''))
       \<and> (\<forall>e. Success r \<and> Certificate (Result r) \<noteq> [] \<and> open_err env = Some e \<longrightarrow>
            fst (handleCertificateResponse c env r fs) = Return (Some e)
            \<and> filesys_of (handleCertificateResponse c env r fs) = fs)
       \<and> (\<forall>n e. Success r \<and> Certificate (Result r) \<noteq> [] \<and> open_err env = None
              \<and> write_err env = Some (n, e) \<longrightarrow>
            fst (handleCertificateResponse c env r fs) = Return (Some e))"
proof (rule handler_cases [where r = r and env = env])
qed (use assms in \<open>simp_all add: handler_no_errors handler_unsuccessful handler_no_certificate
        handler_open_fails handler_write_fails handler_persisted persisted_def
        events_of_def filesys_of_def file_calls_def\<close>)

theorem rejection_before_any_file_call_witness:
  "(Success resp_failed \<or> Errors resp_failed \<noteq> [])
   \<and> is_error (fst (handleCertificateResponse cfg0 henv_ok resp_failed fs0))
   \<and> file_calls (events_of (handleCertificateResponse cfg0 henv_ok resp_failed fs0)) = []
   \<and> filesys_of (handleCertificateResponse cfg0 henv_ok resp_failed fs0) = fs0
   \<and> fst (handleCertificateResponse cfg0 henv_ok resp_failed fs0)
        = Return (Some ''unsuccessful operation, errors: invalid token'')
   \<and> OpenFile (CertificateFile cfg0) [O_CREATE, O_TRUNC, O_RDWR] mode_0600
        \<in> set (events_of (handleCertificateResponse cfg0 henv_ok resp_bundle fs0))
   \<and> fst (handleCertificateResponse cfg0 (henv_ok\<lparr>open_err := Some ''permission denied''\<rparr>)
          resp_bundle fs0) = Return (Some ''permission denied'')
   \<and> fst (handleCertificateResponse cfg0
          (henv_ok\<lparr>write_err := Some (2, ''no space left on device'')\<rparr>)
          resp_bundle fs0) = Return (Some ''no space left on device'')"
  using rejection_before_any_file_call [of resp_failed cfg0 henv_ok fs0]
        rejection_before_any_file_call [of resp_bundle cfg0 henv_ok fs0]
        rejection_before_any_file_call
          [of resp_bundle cfg0 "henv_ok\<lparr>open_err := Some ''permission denied''\<rparr>" fs0]
        rejection_before_any_file_call
          [of resp_bundle cfg0 "henv_ok\<lparr>write_err := Some (2, ''no space left on device'')\<rparr>"
             fs0]
  by (simp add: resp_failed_def resp_bundle_def henv_ok_def)

text \<open>
  The claim as written fails where \<^verbatim>\<open>os.OpenFile\<close> fails (lines 157 to 160): the response
  is successful and carries a certificate, and still the handler returns an error and
  no file is written.
\<close>

theorem open_failure_counterexample:
  "\<not> ((is_error (fst (handleCertificateResponse cfg0
                        (henv_ok\<lparr>open_err := Some ''permission denied''\<rparr>) resp_bundle fs0))
        \<and> files (filesys_of (handleCertificateResponse cfg0
                        (henv_ok\<lparr>open_err := Some ''permission denied''\<rparr>) resp_bundle fs0))
            = files fs0)
       \<longleftrightarrow> (\<not> Success resp_bundle \<or> Certificate (Result resp_bundle) = []))"
  by (simp add: handleCertificateResponse_def resp_bundle_def henv_ok_def filesys_of_def Let_def)

text \<open>
  Claim C4. Every \<^verbatim>\<open>WriteString\<close> call of the handler goes to the certificate path with
  the bundle text when the bundle field is not empty, and with the bare leaf certificate
  otherwise; and for a successful response whose open and write go through, the
  certificate file holds exactly that text afterwards.
\<close>

theorem written_text_is_bundle_or_leaf:
  "(\<forall>p s. WriteString p s \<in> set (events_of (handleCertificateResponse c env r fs)) \<longrightarrow>
       p = CertificateFile c
       \<and> s = (if Bundle_b (Bundle_r (Result r)) \<noteq> [] then Bundle_b (Bundle_r (Result r))
              else Certificate (Result r)))
   \<and> (persisted env r \<longrightarrow>
       WriteString (CertificateFile c)
         (if Bundle_b (Bundle_r (Result r)) \<noteq> [] then Bundle_b (Bundle_r (Result r))
          else Certificate (Result r))
         \<in> set (events_of (handleCertificateResponse c env r fs))
       \<and> map_option content
           (files (filesys_of (handleCertificateResponse c env r fs)) (CertificateFile c))
         = Some (if Bundle_b (Bundle_r (Result r)) \<noteq> [] then Bundle_b (Bundle_r (Result r))
                 else Certificate (Result r)))"
proof (rule handler_cases [where r = r and env = env])
  assume p: "persisted env r"
  have "file_calls (snd (externalCommand c env)) = []" by (rule externalCommand_file_calls)
  then have "WriteString p s \<notin> set (snd (externalCommand c env))" for p s
    by (auto simp add: file_calls_def filter_empty_conv)
  then show ?thesis using p
    by (simp add: handler_persisted events_of_def filesys_of_def files_after_write
        files_close_handle split: option.splits)
qed (simp_all add: handler_no_errors handler_unsuccessful handler_no_certificate
        handler_open_fails handler_write_fails persisted_def events_of_def)

theorem written_text_is_bundle_or_leaf_witness:
  "persisted henv_ok resp_bundle \<and> persisted henv_ok resp_leaf
   \<and> map_option content
       (files (filesys_of (handleCertificateResponse cfg0 henv_ok resp_bundle fs0))
          (CertificateFile cfg0)) = Some ''LEAF+CHAIN''
   \<and> map_option content
       (files (filesys_of (handleCertificateResponse cfg0 henv_ok resp_leaf fs0))
          (CertificateFile cfg0)) = Some ''LEAF''"
  using written_text_is_bundle_or_leaf [of cfg0 henv_ok resp_bundle fs0]
        written_text_is_bundle_or_leaf [of cfg0 henv_ok resp_leaf fs0]
  by (simp add: persisted_def henv_ok_def resp_bundle_def resp_leaf_def)

text \<open>
  Claim C8, as amended. The calls of the handler on files are: none when the response is
  rejected; otherwise one \<^verbatim>\<open>OpenFile\<close> on the certificate path with create, truncate and
  read-write flags and the permission argument 0600 (owner read and owner write, nothing
  else), then (when the open succeeds) the write and the deferred close. The close
  happens on every return of the handler, the error return of a failed write included,
  so the handler returns with the handles it was called with. After a successful open
  the old content is gone. A file created by the open has mode 0600 less the umask,
  which grants nothing to group and others. A file that was there before keeps the mode
  it had, whatever that was: the permission argument of \<^verbatim>\<open>OpenFile\<close> is used on creation
  only, and the handler never changes a mode.
\<close>

theorem certificate_file_opened_0600_and_closed:
  "file_calls (events_of (handleCertificateResponse c env r fs)) =
     (if \<not> Success r \<or> Certificate (Result r) = [] then []
      else OpenFile (CertificateFile c) [O_CREATE, O_TRUNC, O_RDWR] mode_0600 #
           (if open_err env = None then
              WriteString (CertificateFile c)
                (if Bundle_b (Bundle_r (Result r)) \<noteq> [] then Bundle_b (Bundle_r (Result r))
                 else Certificate (Result r)) #
              (if fst (handleCertificateResponse c env r fs) = Panic NilPointerDereference
               then [] else [Close (CertificateFile c)])
            else []))
   \<and> (fst (handleCertificateResponse c env r fs) \<noteq> Panic NilPointerDereference \<longrightarrow>
        handles (filesys_of (handleCertificateResponse c env r fs)) = handles fs)
   \<and> (Success r \<and> Certificate (Result r) \<noteq> [] \<and> open_err env = None \<longrightarrow>
        map_option mode
          (files (filesys_of (handleCertificateResponse c env r fs)) (CertificateFile c))
        = Some (case files fs (CertificateFile c) of
                  None \<Rightarrow> mode_0600 AND NOT (umask fs)
                | Some f \<Rightarrow> mode f)
        \<and> map_option content
          (files (filesys_of (handleCertificateResponse c env r fs)) (CertificateFile c))
        = Some (case write_err env of
                  None \<Rightarrow> (if Bundle_b (Bundle_r (Result r)) \<noteq> []
                            then Bundle_b (Bundle_r (Result r)) else Certificate (Result r))
                | Some (n, e) \<Rightarrow> take n (if Bundle_b (Bundle_r (Result r)) \<noteq> []
                            then Bundle_b (Bundle_r (Result r)) else Certificate (Result r))))
   \<and> mode_0600 = 4 * 64 + 2 * 64
   \<and> (mode_0600 AND NOT (umask fs)) AND (7 * 8 + 7) = 0"
  (is "?A \<and> ?B \<and> ?C \<and> ?D \<and> ?E")
proof -
  have abc: "?A \<and> ?B \<and> ?C"
  proof (rule handler_cases [where r = r and env = env])
    assume p: "persisted env r"
    have "file_calls (snd (externalCommand c env)) = []" by (rule externalCommand_file_calls)
    then show ?thesis using p
      by (simp add: handler_persisted events_of_def filesys_of_def files_after_write
          files_close_handle handles_after_write file_calls_def persisted_def
          split: option.splits)
  qed (simp_all add: handler_no_errors handler_unsuccessful handler_no_certificate
          handler_open_fails handler_write_fails events_of_def filesys_of_def
          files_after_write files_close_handle handles_after_write file_calls_def
          split: option.splits)
  have d: ?D by (rule mode_0600_value)
  have e: ?E by (rule owner_only)
  show ?thesis
    by (rule conjI [OF abc [THEN conjunct1] conjI [OF abc [THEN conjunct2, THEN conjunct1]
          conjI [OF abc [THEN conjunct2, THEN conjunct2] conjI [OF d e]]]])
qed

theorem certificate_file_opened_0600_and_closed_witness:
  "file_calls (events_of (handleCertificateResponse cfg0
       (henv_ok\<lparr>write_err := Some (2, ''no space left on device'')\<rparr>) resp_bundle fs0))
     = [OpenFile ''/certs/tls.pem'' [O_CREATE, O_TRUNC, O_RDWR] (4 * 64 + 2 * 64),
        WriteString ''/certs/tls.pem'' ''LEAF+CHAIN'',
        Close ''/certs/tls.pem'']
   \<and> handles (filesys_of (handleCertificateResponse cfg0
       (henv_ok\<lparr>write_err := Some (2, ''no space left on device'')\<rparr>) resp_bundle fs0)) = []
   \<and> map_option mode (files (filesys_of (handleCertificateResponse cfg0
       (henv_ok\<lparr>write_err := Some (2, ''no space left on device'')\<rparr>) resp_bundle fs0))
         ''/certs/tls.pem'') = Some (4 * 64 + 2 * 64)
   \<and> map_option content (files (filesys_of (handleCertificateResponse cfg0
       (henv_ok\<lparr>write_err := Some (2, ''no space left on device'')\<rparr>) resp_bundle fs0))
         ''/certs/tls.pem'') = Some ''LE''
   \<and> map_option mode (files (filesys_of (handleCertificateResponse cfg0 henv_ok resp_bundle
         fs_old)) ''/certs/tls.pem'') = Some (6 * 64 + 4 * 8 + 4)
   \<and> map_option content (files (filesys_of (handleCertificateResponse cfg0 henv_ok resp_bundle
         fs_old)) ''/certs/tls.pem'') = Some ''LEAF+CHAIN''
   \<and> handles (filesys_of (handleCertificateResponse cfg0 henv_ok resp_bundle fs_old)) = []"
proof -
  define E where "E = henv_ok\<lparr>write_err := Some (2, ''no space left on device'')\<rparr>"
  note t1 = certificate_file_opened_0600_and_closed [of cfg0 E resp_bundle fs0]
  note t2 = certificate_file_opened_0600_and_closed [of cfg0 henv_ok resp_bundle fs_old]
  have c: "CertificateFile cfg0 = ''/certs/tls.pem''"
    by (simp add: CertificateFile_def cfg0_def)
  have r: "Success resp_bundle" "Certificate (Result resp_bundle) \<noteq> []"
    "Bundle_b (Bundle_r (Result resp_bundle)) = ''LEAF+CHAIN''"
    by (simp_all add: resp_bundle_def)
  have e: "open_err E = None" "write_err E = Some (2, ''no space left on device'')"
    "open_err henv_ok = None" "write_err henv_ok = None"
    by (simp_all add: E_def henv_ok_def)
  have n1: "fst (handleCertificateResponse cfg0 E resp_bundle fs0) \<noteq> Panic NilPointerDereference"
    by (simp add: handler_write_fails [OF r(1,2) e(1,2)])
  have n2: "fst (handleCertificateResponse cfg0 henv_ok resp_bundle fs_old)
            \<noteq> Panic NilPointerDereference"
    by (simp add: handler_persisted persisted_def r e kills_unstarted_def cfg0_def)
  have f: "files fs0 ''/certs/tls.pem'' = None" "handles fs0 = []"
    "files fs_old ''/certs/tls.pem'' = Some \<lparr>content = ''OLD'', mode = mode_0644\<rparr>"
    "handles fs_old = []"
    by (simp_all add: fs0_def fs_old_def)
  have m: "mode_0600 AND NOT (umask fs0) = 4 * 64 + 2 * 64"
    by (simp add: mode_0600_def fs0_def)
  have v: "mode_0600 = 4 * 64 + 2 * 64" by (rule t1 [THEN conjunct2, THEN conjunct2,
        THEN conjunct2, THEN conjunct1])
  have 1: "file_calls (events_of (handleCertificateResponse cfg0 E resp_bundle fs0))
     = [OpenFile ''/certs/tls.pem'' [O_CREATE, O_TRUNC, O_RDWR] (4 * 64 + 2 * 64),
        WriteString ''/certs/tls.pem'' ''LEAF+CHAIN'',
        Close ''/certs/tls.pem'']"
    unfolding t1 [THEN conjunct1] using n1 by (simp add: r e c v)
  have 2: "handles (filesys_of (handleCertificateResponse cfg0 E resp_bundle fs0)) = []"
    using t1 [THEN conjunct2, THEN conjunct1] n1 by (simp add: f)
  have 3: "map_option mode (files (filesys_of (handleCertificateResponse cfg0 E resp_bundle
             fs0)) ''/certs/tls.pem'') = Some (4 * 64 + 2 * 64)"
    and 4: "map_option content (files (filesys_of (handleCertificateResponse cfg0 E resp_bundle
             fs0)) ''/certs/tls.pem'') = Some ''LE''"
    using t1 [THEN conjunct2, THEN conjunct2, THEN conjunct1] m
    by (simp_all add: r e c f)
  have 5: "map_option mode (files (filesys_of (handleCertificateResponse cfg0 henv_ok
             resp_bundle fs_old)) ''/certs/tls.pem'') = Some (6 * 64 + 4 * 8 + 4)"
    and 6: "map_option content (files (filesys_of (handleCertificateResponse cfg0 henv_ok
             resp_bundle fs_old)) ''/certs/tls.pem'') = Some ''LEAF+CHAIN''"
    using t2 [THEN conjunct2, THEN conjunct2, THEN conjunct1]
    by (simp_all add: r e c f mode_0644_def)
  have 7: "handles (filesys_of (handleCertificateResponse cfg0 henv_ok resp_bundle fs_old)) = []"
    using t2 [THEN conjunct2, THEN conjunct1] n2 by (simp add: f)
  show ?thesis
    using 1 2 3 4 5 6 7 unfolding E_def by (intro conjI)
qed

text \<open>
  The claim as written fails for a certificate file that is there already. Here the file
  exists with mode 0644. The handler succeeds and the file holds the new text, but its
  mode is still 0644: group and others can read what was written.
\<close>

theorem existing_file_keeps_mode_counterexample:
  "files fs_old ''/certs/tls.pem'' = Some \<lparr>content = ''OLD'', mode = 6 * 64 + 4 * 8 + 4\<rparr>
   \<and> fst (handleCertificateResponse cfg0 henv_ok resp_bundle fs_old) = Return None
   \<and> files (filesys_of (handleCertificateResponse cfg0 henv_ok resp_bundle fs_old))
        ''/certs/tls.pem''
      = Some \<lparr>content = ''LEAF+CHAIN'', mode = 6 * 64 + 4 * 8 + 4\<rparr>
   \<and> (6 * 64 + 4 * 8 + 4 :: FileMode) \<noteq> 4 * 64 + 2 * 64
   \<and> mode_0600 = 4 * 64 + 2 * 64"
proof -
  have p: "persisted henv_ok resp_bundle"
    by (simp add: persisted_def henv_ok_def resp_bundle_def)
  have k: "\<not> kills_unstarted cfg0 henv_ok"
    by (simp add: kills_unstarted_def henv_ok_def)
  have c: "CertificateFile cfg0 = ''/certs/tls.pem''"
    by (simp add: CertificateFile_def cfg0_def)
  have f: "files fs_old ''/certs/tls.pem'' = Some \<lparr>content = ''OLD'', mode = 6 * 64 + 4 * 8 + 4\<rparr>"
    by (simp add: fs_old_def mode_0644_def)
  show ?thesis
    using k f
    by (simp add: handler_persisted [OF p] filesys_of_def files_close_handle
        files_after_write c mode_0600_value)
       (simp add: resp_bundle_def)
qed

section \<open>Properties of the signing request\<close>

text \<open>
  Claim C7. A signing attempt makes at most one HTTP call (none when \<^verbatim>\<open>http.NewRequest\<close>
  fails), a POST. With a token configured it goes to the endpoint followed by
  \<^verbatim>\<open>/api/v1/cfssl/authsign\<close> and its JSON body is the object of \<^verbatim>\<open>token\<close> and \<^verbatim>\<open>request\<close>;
  with an empty token it goes to the endpoint followed by \<^verbatim>\<open>/api/v1/cfssl/sign\<close> and its
  JSON body is the plain request.
\<close>

theorem signing_request_shape:
  "snd (doSigningRequest c ex request) =
     (case ex of
        NewRequestFails e \<Rightarrow> []
      | _ \<Rightarrow>
          [HttpDo ''POST''
             (EndpointURL c @ (if EndpointToken c \<noteq> [] then ''/api/v1/cfssl/authsign''
                               else ''/api/v1/cfssl/sign''))
             (if EndpointToken c \<noteq> []
              then JObject [(''token'', JString (EndpointToken c)),
                            (''request'', marshal_SigningRequest request)]
              else marshal_SigningRequest request)])"
  by (simp add: doSigningRequest_def marshal_AuthSigningRequest_def Let_def split: exchange.splits)

theorem signing_request_shape_witness:
  "snd (doSigningRequest cfg0 (Decoded resp_bundle) (signing_request cfg0 ''PEM'')) =
     [HttpDo ''POST'' ''https://ca.kube-tls.svc.cluster.local/api/v1/cfssl/sign''
        (JObject [(''certificate_request'', JString ''PEM''),
                  (''profile'', JString ''server''),
                  (''bundle'', JBool True)])]
   \<and> snd (doSigningRequest (cfg0\<lparr>EndpointToken := ''secret''\<rparr>) (DoFails ''timeout'')
            (signing_request cfg0 ''PEM'')) =
     [HttpDo ''POST'' ''https://ca.kube-tls.svc.cluster.local/api/v1/cfssl/authsign''
        (JObject [(''token'', JString ''secret''),
                  (''request'',
                   JObject [(''certificate_request'', JString ''PEM''),
                            (''profile'', JString ''server''),
                            (''bundle'', JBool True)])])]
   \<and> snd (doSigningRequest cfg0 (NewRequestFails ''invalid URL'')
            (signing_request cfg0 ''PEM'')) = []"
  using signing_request_shape [of cfg0 "Decoded resp_bundle" "signing_request cfg0 ''PEM''"]
        signing_request_shape [of "cfg0\<lparr>EndpointToken := ''secret''\<rparr>" "DoFails ''timeout''"
          "signing_request cfg0 ''PEM''"]
        signing_request_shape [of cfg0 "NewRequestFails ''invalid URL''"
          "signing_request cfg0 ''PEM''"]
  by (simp add: cfg0_def signing_request_def marshal_SigningRequest_def)

section \<open>Events of the parts, one pass, and the loop\<close>

subsection \<open>Events of the parts\<close>

lemma map_filter_append: "List.map_filter f (xs @ ys) = List.map_filter f xs @ List.map_filter f ys"
  by (simp add: List.map_filter_def)

lemma map_filter_none: "(\<And>x. x \<in> set xs \<Longrightarrow> f x = None) \<Longrightarrow> List.map_filter f xs = []"
  by (induction xs) simp_all

lemma sleeps_append: "sleeps (xs @ ys) = sleeps xs @ sleeps ys"
  by (simp add: sleeps_def map_filter_append)

lemma posted_csrs_append: "posted_csrs (xs @ ys) = posted_csrs xs @ posted_csrs ys"
  by (simp add: posted_csrs_def map_filter_append)

lemma constructions_append: "constructions (xs @ ys) = constructions xs @ constructions ys"
  by (simp add: constructions_def)

lemma local_events:
  assumes "\<And>e. e \<in> set ev \<Longrightarrow> local_event e"
  shows "sleeps ev = []" and "posted_csrs ev = []" and "constructions ev = []"
  using assms
  by (simp_all add: sleeps_def posted_csrs_def constructions_def local_event_def
      map_filter_none filter_empty_conv)

text \<open>
  The handler logs, calls on files and runs the command; it does not sleep, post or
  build requests.
\<close>

lemma race_events_local: "e \<in> set (race_events c env i) \<Longrightarrow> local_event e"
  by (cases i)
     (auto simp add: race_events_cases local_event_def split: option.splits)

lemma externalCommand_local: "e \<in> set (snd (externalCommand c env)) \<Longrightarrow> local_event e"
  using race_events_local [of e c env "interleaving env"]
  by (auto simp add: externalCommand_def local_event_def Let_def race_events_prefix
      split: option.splits if_splits)

lemma handler_local:
  "e \<in> set (events_of (handleCertificateResponse c env r fs)) \<Longrightarrow> local_event e"
proof (rule handler_cases [where r = r and env = env])
  assume p: "persisted env r" and e: "e \<in> set (events_of (handleCertificateResponse c env r fs))"
  then show ?thesis
    using externalCommand_local [of e c env]
    by (auto simp add: handler_persisted events_of_def local_event_def split: if_splits)
qed (auto simp add: handler_no_errors handler_unsuccessful handler_no_certificate
        handler_open_fails handler_write_fails events_of_def local_event_def)

lemma handling_fails_iff:
  "handling_fails env r \<longleftrightarrow> is_error (fst (handleCertificateResponse c env r fs))"
  by (rule handler_cases [where r = r and env = env])
     (auto simp add: handler_no_errors handler_unsuccessful handler_no_certificate
        handler_open_fails handler_write_fails handler_persisted persisted_def handling_fails_def)

subsection \<open>One pass of the loop\<close>

lemma doSigningRequest_result:
  "fst (doSigningRequest c ex req) =
     (case ex of NewRequestFails e \<Rightarrow> Inl e | DoFails e \<Rightarrow> Inl e | ReadAllFails e \<Rightarrow> Inl e
      | UnmarshalFails e \<Rightarrow> Inl e | Decoded r \<Rightarrow> Inr r)"
  by (simp add: doSigningRequest_def Let_def split: exchange.splits)

lemma attempt_exchange_fails:
  assumes "fst (doSigningRequest c (signing env) (signing_request c enc)) = Inl e"
  shows "attempt c enc env fs =
     (None, fs,
      prelude c (signing env) enc
      @ [Log ErrorLevel ''failed to retrieve certificate signing'' [(''error'', FieldString e)],
         Sleep (5 * Second)])"
  using assms
  by (cases "doSigningRequest c (signing env) (signing_request c enc)")
     (simp add: attempt_def prelude_def)

lemma attempt_decoded:
  assumes "signing env = Decoded r"
    and "handleCertificateResponse c (handling env) r fs = (res, fs', ev)"
  shows "attempt c enc env fs =
     (case res of
        Panic p \<Rightarrow> (Some (Crashed p), fs', prelude c (signing env) enc @ ev)
      | Return (Some e) \<Rightarrow>
          (None, fs',
           prelude c (signing env) enc @ ev
           @ [Log ErrorLevel ''failed to proccess certificate response''
                [(''error'', FieldString e)],
              Sleep (5 * Second)])
      | Return None \<Rightarrow>
          (if Onetime c then Some (Exited 0) else None,
           fs',
           prelude c (signing env) enc @ ev
           @ [Log InfoLevel ''successfully wrote the tls certificates''
                [(''certificate'', FieldString (CertificateFile c)),
                 (''private_key'', FieldString (PrivateKeyFile c))],
              DoneSend]
           @ (if Onetime c then
                [Log InfoLevel ''onetime mode enabled, exiting the service'' [], Exit 0]
              else
                [Log InfoLevel ''going to sleep until next certificate rotation''
                   [(''duration'', FieldDuration (Expiry c))],
                 Sleep (Expiry c)])))"
proof -
  have "fst (doSigningRequest c (signing env) (signing_request c enc)) = Inr r"
    using assms(1) by (simp add: doSigningRequest_result)
  then show ?thesis
    using assms(2)
    by (cases "doSigningRequest c (signing env) (signing_request c enc)")
       (simp add: attempt_def prelude_def signal_success_def Let_def
          split: result.splits option.splits)
qed

lemma prelude_observed:
  "sleeps (prelude c ex enc) = []"
  "constructions (prelude c ex enc) = []"
  "posted_csrs (prelude c ex enc) = (case ex of NewRequestFails e \<Rightarrow> [] | _ \<Rightarrow> [Some enc])"
  by (simp_all add: prelude_def attempting_def doSigningRequest_def signing_request_def
      sleeps_def constructions_def posted_csrs_def marshal_SigningRequest_def
      marshal_AuthSigningRequest_def Let_def split: exchange.splits)

lemma attempt_fails_exchange:
  "attempt_fails env \<longleftrightarrow>
     (case signing env of
        Decoded r \<Rightarrow> is_error (fst (handleCertificateResponse c (handling env) r fs))
      | _ \<Rightarrow> True)"
  by (simp add: attempt_fails_def handling_fails_iff [of _ _ c fs] split: exchange.splits)

lemma handler_events_observed:
  assumes "handleCertificateResponse c env r fs = (res, fs', ev)"
  shows "sleeps ev = []" and "posted_csrs ev = []" and "constructions ev = []"
proof -
  have l: "\<And>x. x \<in> set ev \<Longrightarrow> local_event x"
    using handler_local [of _ c env r fs] assms by (simp add: events_of_def)
  show "sleeps ev = []" by (rule local_events(1) [OF l])
  show "posted_csrs ev = []" by (rule local_events(2) [OF l])
  show "constructions ev = []" by (rule local_events(3) [OF l])
qed

lemma attempt_succeeds_handler:
  "attempt_succeeds c env \<longleftrightarrow>
     (case signing env of
        Decoded r \<Rightarrow> fst (handleCertificateResponse c (handling env) r fs) = Return None
      | _ \<Rightarrow> False)"
proof (cases "signing env")
  case (Decoded r)
  have "(persisted (handling env) r \<and> \<not> kills_unstarted c (handling env))
        \<longleftrightarrow> fst (handleCertificateResponse c (handling env) r fs) = Return None"
    by (rule handler_cases [where r = r and env = "handling env"])
       (simp_all add: handler_no_errors handler_unsuccessful handler_no_certificate
          handler_open_fails handler_write_fails handler_persisted persisted_def)
  then show ?thesis using Decoded by (simp add: attempt_succeeds_def)
qed (simp_all add: attempt_succeeds_def)

text \<open>A failed attempt: the loop goes round after one sleep of five seconds.\<close>

lemma attempt_failed:
  assumes "attempt_fails env"
  shows "fst (attempt c enc env fs) = None \<and>
        sleeps (events_of (attempt c enc env fs)) = [5 * Second] \<and>
        constructions (events_of (attempt c enc env fs)) = [] \<and>
        posted_csrs (events_of (attempt c enc env fs)) =
           (case signing env of NewRequestFails e \<Rightarrow> [] | _ \<Rightarrow> [Some enc])"
proof (cases "\<exists>r. signing env = Decoded r")
  case False
  then obtain e where
    "fst (doSigningRequest c (signing env) (signing_request c enc)) = Inl e"
    by (cases "signing env") (simp_all add: doSigningRequest_result)
  then show ?thesis
    by (simp add: attempt_exchange_fails events_of_def sleeps_append
        constructions_append posted_csrs_append prelude_observed)
       (simp add: sleeps_def constructions_def posted_csrs_def)
next
  case True
  then obtain r where r: "signing env = Decoded r" by blast
  obtain res fs' ev where h: "handleCertificateResponse c (handling env) r fs = (res, fs', ev)"
    by (cases "handleCertificateResponse c (handling env) r fs")
  have "is_error res"
    using assms r h attempt_fails_exchange [of env c fs] by simp
  then obtain e where e: "res = Return (Some e)"
    by (cases res rule: is_error.cases) simp_all
  show ?thesis
    by (simp add: attempt_decoded [OF r h] e events_of_def sleeps_append
        constructions_append posted_csrs_append prelude_observed
        handler_events_observed [OF h])
       (simp add: sleeps_def constructions_def posted_csrs_def r)
qed


lemma prelude_no_write: "WriteString p s \<notin> set (prelude c ex enc)"
  by (simp add: prelude_def attempting_def doSigningRequest_def Let_def split: exchange.splits)

text \<open>A failed attempt other than a failed write leaves the file system alone.\<close>

lemma attempt_failed_unwritten:
  assumes "attempt_fails env" and "\<not> write_fails env"
  shows "filesys_of (attempt c enc env fs) = fs \<and>
         (\<forall>p s. WriteString p s \<notin> set (events_of (attempt c enc env fs)))"
proof (cases "\<exists>r. signing env = Decoded r")
  case False
  then obtain e where
    "fst (doSigningRequest c (signing env) (signing_request c enc)) = Inl e"
    by (cases "signing env") (simp_all add: doSigningRequest_result)
  then show ?thesis
    by (simp add: attempt_exchange_fails events_of_def filesys_of_def prelude_no_write)
next
  case True
  then obtain r where r: "signing env = Decoded r" by blast
  have f: "handling_fails (handling env) r"
    using assms(1) r by (simp add: attempt_fails_def)
  have w: "\<not> (Success r \<and> Certificate (Result r) \<noteq> [] \<and> open_err (handling env) = None
             \<and> write_err (handling env) \<noteq> None)"
    using assms(2) r by (simp add: write_fails_def)
  show ?thesis
  proof (rule handler_cases [where r = r and env = "handling env"])
    fix e es assume "\<not> Success r" "Errors r = e # es"
    then show ?thesis
      by (simp add: attempt_decoded [OF r handler_unsuccessful] events_of_def filesys_of_def
          prelude_no_write)
  next
    assume "Success r" "Certificate (Result r) = []"
    then show ?thesis
      by (simp add: attempt_decoded [OF r handler_no_certificate] events_of_def filesys_of_def
          prelude_no_write)
  next
    fix e assume "Success r" "Certificate (Result r) \<noteq> []" "open_err (handling env) = Some e"
    then show ?thesis
      by (simp add: attempt_decoded [OF r handler_open_fails] events_of_def filesys_of_def
          prelude_no_write)
  qed (use f w in \<open>simp_all add: handling_fails_def persisted_def\<close>)
qed

text \<open>A successful attempt.\<close>

lemma attempt_succeeded:
  assumes "attempt_succeeds c env"
  shows "fst (attempt c enc env fs) = (if Onetime c then Some (Exited 0) else None) \<and>
         sleeps (events_of (attempt c enc env fs)) = (if Onetime c then [] else [Expiry c]) \<and>
         last (events_of (attempt c enc env fs))
           = (if Onetime c then Exit 0 else Sleep (Expiry c)) \<and>
         constructions (events_of (attempt c enc env fs)) = [] \<and>
         posted_csrs (events_of (attempt c enc env fs)) = [Some enc]"
proof -
  obtain r where r: "signing env = Decoded r"
    and p: "persisted (handling env) r" and k: "\<not> kills_unstarted c (handling env)"
    using assms by (cases "signing env") (simp_all add: attempt_succeeds_def)
  obtain res fs' ev where h: "handleCertificateResponse c (handling env) r fs = (res, fs', ev)"
    by (cases "handleCertificateResponse c (handling env) r fs")
  have e: "res = Return None"
    using h p k by (simp add: handler_persisted)
  show ?thesis
    by (simp add: attempt_decoded [OF r h] e events_of_def sleeps_append
        constructions_append posted_csrs_append prelude_observed
        handler_events_observed [OF h])
       (simp add: sleeps_def constructions_def posted_csrs_def r)
qed

subsection \<open>The loop\<close>

lemma run_loop_Cons_continue:
  "fst (attempt c enc env fs) = None \<Longrightarrow>
   run_loop c enc (env # envs) fs =
     (fst (run_loop c enc envs (filesys_of (attempt c enc env fs))),
      filesys_of (run_loop c enc envs (filesys_of (attempt c enc env fs))),
      events_of (attempt c enc env fs)
      @ events_of (run_loop c enc envs (filesys_of (attempt c enc env fs))))"
  by (cases "attempt c enc env fs";
      cases "run_loop c enc envs (filesys_of (attempt c enc env fs))")
     (simp add: filesys_of_def events_of_def)

lemma run_loop_Cons_stop:
  "fst (attempt c enc env fs) = Some out \<Longrightarrow>
   run_loop c enc (env # envs) fs =
     (out, filesys_of (attempt c enc env fs), events_of (attempt c enc env fs))"
  by (cases "attempt c enc env fs") (simp add: filesys_of_def events_of_def)

lemma run_loop_append:
  "fst (run_loop c enc xs fs) = Running \<Longrightarrow>
   run_loop c enc (xs @ ys) fs =
     (fst (run_loop c enc ys (filesys_of (run_loop c enc xs fs))),
      filesys_of (run_loop c enc ys (filesys_of (run_loop c enc xs fs))),
      events_of (run_loop c enc xs fs)
      @ events_of (run_loop c enc ys (filesys_of (run_loop c enc xs fs))))"
proof (induction xs arbitrary: fs)
  case Nil
  then show ?case by (simp add: filesys_of_def events_of_def)
next
  case (Cons env xs)
  show ?case
  proof (cases "fst (attempt c enc env fs)")
    case None
    have "fst (run_loop c enc xs (filesys_of (attempt c enc env fs))) = Running"
      using Cons.prems by (simp add: run_loop_Cons_continue [OF None] del: run_loop.simps)
    from Cons.IH [OF this] show ?thesis
      by (simp add: run_loop_Cons_continue [OF None] del: run_loop.simps)
         (simp add: filesys_of_def events_of_def)
  next
    case (Some out)
    then have "out = Running"
      using Cons.prems by (simp add: run_loop_Cons_stop [OF Some] del: run_loop.simps)
    then show ?thesis using Some
      by (cases "attempt c enc env fs") (simp add: attempt_def Let_def
          split: prod.splits sum.splits result.splits option.splits if_splits)
  qed
qed

lemma run_loop_all_failed:
  assumes "\<forall>env\<in>set envs. attempt_fails env"
  shows "fst (run_loop c enc envs fs) = Running \<and>
         sleeps (events_of (run_loop c enc envs fs)) = replicate (length envs) (5 * Second)"
  using assms
proof (induction envs arbitrary: fs)
  case Nil
  then show ?case by (simp add: events_of_def sleeps_def)
next
  case (Cons env envs)
  have a: "fst (attempt c enc env fs) = None"
    and s: "sleeps (events_of (attempt c enc env fs)) = [5 * Second]"
    using Cons.prems attempt_failed [of env c enc fs] by simp_all
  show ?case
    using Cons.IH [of "filesys_of (attempt c enc env fs)"] Cons.prems
    by (simp add: run_loop_Cons_continue [OF a] del: run_loop.simps)
       (simp add: events_of_def sleeps_append s [unfolded events_of_def])
qed

lemma run_loop_all_failed_unwritten:
  assumes "\<forall>env\<in>set envs. attempt_fails env \<and> \<not> write_fails env"
  shows "filesys_of (run_loop c enc envs fs) = fs \<and>
         (\<forall>p s. WriteString p s \<notin> set (events_of (run_loop c enc envs fs)))"
  using assms
proof (induction envs arbitrary: fs)
  case Nil
  then show ?case by (simp add: events_of_def filesys_of_def)
next
  case (Cons env envs)
  have a: "fst (attempt c enc env fs) = None"
    using Cons.prems attempt_failed [of env c enc fs] by simp
  have u: "filesys_of (attempt c enc env fs) = fs"
    "\<And>p s. WriteString p s \<notin> set (events_of (attempt c enc env fs))"
    using Cons.prems attempt_failed_unwritten [of env c enc fs] by simp_all
  show ?case
    using Cons.IH [of fs] Cons.prems u
    by (simp add: run_loop_Cons_continue [OF a] del: run_loop.simps)
       (simp add: events_of_def filesys_of_def)
qed

lemma attempt_observed:
  "constructions (events_of (attempt c enc env fs)) = [] \<and>
   posted_csrs (events_of (attempt c enc env fs)) =
     (case signing env of NewRequestFails e \<Rightarrow> [] | _ \<Rightarrow> [Some enc])"
proof (cases "\<exists>r. signing env = Decoded r")
  case False
  then obtain e where
    "fst (doSigningRequest c (signing env) (signing_request c enc)) = Inl e"
    by (cases "signing env") (simp_all add: doSigningRequest_result)
  then show ?thesis
    by (simp add: attempt_exchange_fails events_of_def
        constructions_append posted_csrs_append prelude_observed)
       (simp add: constructions_def posted_csrs_def)
next
  case True
  then obtain r where r: "signing env = Decoded r" by blast
  obtain res fs' ev where h: "handleCertificateResponse c (handling env) r fs = (res, fs', ev)"
    by (cases "handleCertificateResponse c (handling env) r fs")
  show ?thesis
    by (simp add: attempt_decoded [OF r h] events_of_def
        constructions_append posted_csrs_append prelude_observed
        handler_events_observed [OF h] split: result.splits option.splits)
       (simp add: constructions_def posted_csrs_def r)
qed



lemma run_loop_observed:
  "constructions (events_of (run_loop c enc envs fs)) = [] \<and>
   set (posted_csrs (events_of (run_loop c enc envs fs))) \<subseteq> {Some enc}"
proof (induction envs arbitrary: fs)
  case Nil
  show ?case by (simp add: events_of_def constructions_def posted_csrs_def)
next
  case (Cons env envs)
  have o: "constructions (events_of (attempt c enc env fs)) = []"
    "set (posted_csrs (events_of (attempt c enc env fs))) \<subseteq> {Some enc}"
    using attempt_observed [of c enc env fs] by (simp_all split: exchange.splits)
  show ?case
  proof (cases "fst (attempt c enc env fs)")
    case None
    show ?thesis
      using Cons.IH [of "filesys_of (attempt c enc env fs)"] o
      unfolding run_loop_Cons_continue [OF None]
      by (simp add: events_of_def constructions_append posted_csrs_append)
  next
    case (Some out)
    show ?thesis
      using o unfolding run_loop_Cons_stop [OF Some]
      by (simp add: events_of_def)
  qed
qed

lemma replicate_of_subset: "set xs \<subseteq> {a} \<Longrightarrow> xs = replicate (length xs) a"
  by (induction xs) simp_all

lemma events_of_triple: "events_of (a, b, ev) = ev"
  by (simp add: events_of_def)

subsection \<open>The external command\<close>

lemma externalCommand_started:
  "start_err env = None \<Longrightarrow>
   externalCommand c env =
     (Return (),
      [Log InfoLevel ''calling external command''
         [(''command'', FieldString (ExecCommand c)),
          (''timeout'', FieldDuration (Timeout c))],
       Start (ExecCommand c) [CertificateFile c, PrivateKeyFile c, CAFile c],
       AfterFunc (Timeout c)]
      @ (if timer_fires env then race_events c env (interleaving env)
         else Wait # TimerStop #
              (case wait_err env of
                 Some e \<Rightarrow> [Log ErrorLevel ''error calling external command''
                              [(''command'', FieldString (ExecCommand c)),
                               (''error'', FieldString e)]]
               | None \<Rightarrow> [])))"
  by (simp add: externalCommand_def Let_def race_events_prefix split: option.splits)

lemma externalCommand_unstarted:
  "start_err env = Some e \<Longrightarrow>
   externalCommand c env =
     (if timer_fires env then
        (Panic NilPointerDereference,
         [Log InfoLevel ''calling external command''
            [(''command'', FieldString (ExecCommand c)),
             (''timeout'', FieldDuration (Timeout c))],
          Start (ExecCommand c) [CertificateFile c, PrivateKeyFile c, CAFile c],
          AfterFunc (Timeout c)])
      else
        (Return (),
         [Log InfoLevel ''calling external command''
            [(''command'', FieldString (ExecCommand c)),
             (''timeout'', FieldDuration (Timeout c))],
          Start (ExecCommand c) [CertificateFile c, PrivateKeyFile c, CAFile c],
          AfterFunc (Timeout c),
          Wait, TimerStop,
          Log ErrorLevel ''error calling external command''
            [(''command'', FieldString (ExecCommand c)),
             (''error'', FieldString ''exec: not started'')]]))"
  by (simp add: externalCommand_def Let_def)

text \<open>
  A command that started: whatever becomes of it, the handler returns nil; the text is
  in the file before \<^verbatim>\<open>Start\<close> is called and the file is closed after the command is
  done with.
\<close>

lemma started_command_outcome:
  assumes "persisted env r" and "ExecCommand c \<noteq> []" and "start_err env = None"
  shows "fst (handleCertificateResponse c env r fs) = Return None"
    and "events_of (handleCertificateResponse c env r fs) =
       [Log InfoLevel ''writing the certificate to disk''
          [(''path'', FieldString (CertificateFile c))],
        OpenFile (CertificateFile c) [O_CREATE, O_TRUNC, O_RDWR] mode_0600,
        WriteString (CertificateFile c)
          (if Bundle_b (Bundle_r (Result r)) \<noteq> [] then Bundle_b (Bundle_r (Result r))
           else Certificate (Result r)),
        Log InfoLevel ''calling external command''
          [(''command'', FieldString (ExecCommand c)),
           (''timeout'', FieldDuration (Timeout c))],
        Start (ExecCommand c) [CertificateFile c, PrivateKeyFile c, CAFile c],
        AfterFunc (Timeout c)]
       @ (if timer_fires env then race_events c env (interleaving env)
          else Wait # TimerStop #
               (case wait_err env of
                  Some e \<Rightarrow> [Log ErrorLevel ''error calling external command''
                               [(''command'', FieldString (ExecCommand c)),
                                (''error'', FieldString e)]]
                | None \<Rightarrow> []))
       @ [Close (CertificateFile c)]"
    and "map_option content
           (files (filesys_of (handleCertificateResponse c env r fs)) (CertificateFile c))
         = Some (if Bundle_b (Bundle_r (Result r)) \<noteq> [] then Bundle_b (Bundle_r (Result r))
                 else Certificate (Result r))"
proof -
  have k: "\<not> kills_unstarted c env"
    using assms(3) by (simp add: kills_unstarted_def)
  show "fst (handleCertificateResponse c env r fs) = Return None"
    using assms(1) k by (simp add: handler_persisted)
  show "events_of (handleCertificateResponse c env r fs) =
       [Log InfoLevel ''writing the certificate to disk''
          [(''path'', FieldString (CertificateFile c))],
        OpenFile (CertificateFile c) [O_CREATE, O_TRUNC, O_RDWR] mode_0600,
        WriteString (CertificateFile c)
          (if Bundle_b (Bundle_r (Result r)) \<noteq> [] then Bundle_b (Bundle_r (Result r))
           else Certificate (Result r)),
        Log InfoLevel ''calling external command''
          [(''command'', FieldString (ExecCommand c)),
           (''timeout'', FieldDuration (Timeout c))],
        Start (ExecCommand c) [CertificateFile c, PrivateKeyFile c, CAFile c],
        AfterFunc (Timeout c)]
       @ (if timer_fires env then race_events c env (interleaving env)
          else Wait # TimerStop #
               (case wait_err env of
                  Some e \<Rightarrow> [Log ErrorLevel ''error calling external command''
                               [(''command'', FieldString (ExecCommand c)),
                                (''error'', FieldString e)]]
                | None \<Rightarrow> []))
       @ [Close (CertificateFile c)]"
    using assms(1,2) k
    by (simp add: handler_persisted events_of_def externalCommand_started [OF assms(3)])
  show "map_option content
           (files (filesys_of (handleCertificateResponse c env r fs)) (CertificateFile c))
         = Some (if Bundle_b (Bundle_r (Result r)) \<noteq> [] then Bundle_b (Bundle_r (Result r))
                 else Certificate (Result r))"
    using assms(1) k
    by (simp add: handler_persisted filesys_of_def files_close_handle files_after_write
        split: option.splits)
qed

text \<open>
  When the timer does not fire, an error of \<^verbatim>\<open>cmd.Wait\<close> is logged. When it fires, the
  handler logs an error exactly when the content of \<^verbatim>\<open>err\<close> it loads on line 183 is one:
  the result of \<^verbatim>\<open>cmd.Wait\<close> if the store of line 181 is the last store before the load,
  the result of \<^verbatim>\<open>cmd.Process.Kill\<close> otherwise.
\<close>

lemma started_command_logged:
  assumes "persisted env r" and "ExecCommand c \<noteq> []" and "start_err env = None"
  shows "(\<exists>e. Log ErrorLevel ''error calling external command''
             [(''command'', FieldString (ExecCommand c)), (''error'', FieldString e)]
           \<in> set (events_of (handleCertificateResponse c env r fs)))
         \<longleftrightarrow> (if timer_fires env then main_loads env (interleaving env) \<noteq> None
              else wait_err env \<noteq> None)"
proof (cases "timer_fires env")
  case True
  then show ?thesis
    using race_events_logged [of c env "interleaving env"]
    by (simp add: started_command_outcome(2) [OF assms])
next
  case False
  then show ?thesis
    by (cases "wait_err env") (simp_all add: started_command_outcome(2) [OF assms])
qed

section \<open>Properties of the rotation loop\<close>

text \<open>
  Claim C2, as amended. Whenever the signing exchange fails or the handler returns an
  error, the pass ends with one sleep of five seconds and the loop goes round: after any
  number of such failures in a row the process is still in the loop, it has slept five
  seconds once per failure, and the next attempt follows. No certificate file is written
  during attempts that fail in the exchange, in the validation of the response or in the
  open. An attempt that fails in the write itself is retried in the same way, but it
  leaves the certificate file created or truncated, holding the bytes that went out
  before the error. (The watchdog of \<^verbatim>\<open>makeOperationTimeout\<close> runs beside the loop and is
  not part of this statement.)
\<close>

theorem failed_attempts_back_off_and_retry:
  assumes "\<forall>env\<in>set envs. attempt_fails env"
  shows "fst (run_loop c enc envs fs) = Running
       \<and> sleeps (events_of (run_loop c enc envs fs)) = replicate (length envs) (5 * Second)
       \<and> run_loop c enc (envs @ rest) fs =
           (fst (run_loop c enc rest (filesys_of (run_loop c enc envs fs))),
            filesys_of (run_loop c enc rest (filesys_of (run_loop c enc envs fs))),
            events_of (run_loop c enc envs fs)
            @ events_of (run_loop c enc rest (filesys_of (run_loop c enc envs fs))))
       \<and> ((\<forall>env\<in>set envs. \<not> write_fails env) \<longrightarrow>
            filesys_of (run_loop c enc envs fs) = fs
            \<and> (\<forall>p s. WriteString p s \<notin> set (events_of (run_loop c enc envs fs))))
       \<and> (\<forall>env r n e. signing env = Decoded r \<and> write_fails env
              \<and> write_err (handling env) = Some (n, e) \<longrightarrow>
            fst (attempt c enc env fs) = None
            \<and> map_option content
                 (files (filesys_of (attempt c enc env fs)) (CertificateFile c))
               = Some (take n (if Bundle_b (Bundle_r (Result r)) \<noteq> []
                               then Bundle_b (Bundle_r (Result r))
                               else Certificate (Result r))))"
proof -
  have r: "fst (run_loop c enc envs fs) = Running"
    and s: "sleeps (events_of (run_loop c enc envs fs)) = replicate (length envs) (5 * Second)"
    using run_loop_all_failed [OF assms] by simp_all
  have u: "filesys_of (run_loop c enc envs fs) = fs
           \<and> (\<forall>p s. WriteString p s \<notin> set (events_of (run_loop c enc envs fs)))"
    if "\<forall>env\<in>set envs. \<not> write_fails env"
    using run_loop_all_failed_unwritten [of envs c enc fs] assms that by blast
  have w: "fst (attempt c enc env fs) = None
     \<and> map_option content (files (filesys_of (attempt c enc env fs)) (CertificateFile c))
       = Some (take n (if Bundle_b (Bundle_r (Result r)) \<noteq> []
                       then Bundle_b (Bundle_r (Result r)) else Certificate (Result r)))"
    if "signing env = Decoded r" "write_fails env" "write_err (handling env) = Some (n, e)"
    for env r n e
  proof -
    have p: "Success r" "Certificate (Result r) \<noteq> []" "open_err (handling env) = None"
      using that(1,2) by (simp_all add: write_fails_def)
    show ?thesis
      by (simp add: attempt_decoded [OF that(1) handler_write_fails [OF p that(3)]]
          filesys_of_def files_close_handle files_after_write split: option.splits)
  qed
  show ?thesis
    using r s u w run_loop_append [OF r, of rest] by blast
qed

theorem failed_attempts_back_off_and_retry_witness:
  "attempt_fails env_unreachable \<and> \<not> write_fails env_unreachable
   \<and> fst (run_loop cfg0 ''PEM'' [env_unreachable, env_unreachable] fs0) = Running
   \<and> sleeps (events_of (run_loop cfg0 ''PEM'' [env_unreachable, env_unreachable] fs0))
       = [5 * Second, 5 * Second]
   \<and> filesys_of (run_loop cfg0 ''PEM'' [env_unreachable, env_unreachable] fs0) = fs0
   \<and> fst (run_loop cfg0 ''PEM'' ([env_unreachable, env_unreachable] @ [env_ok]) fs0)
       = fst (run_loop cfg0 ''PEM'' [env_ok] fs0)"
proof -
  have f: "\<forall>env\<in>set [env_unreachable, env_unreachable]. attempt_fails env"
    by (simp add: attempt_fails_def env_unreachable_def)
  have w: "\<forall>env\<in>set [env_unreachable, env_unreachable]. \<not> write_fails env"
    by (simp add: write_fails_def env_unreachable_def)
  show ?thesis
    using f w failed_attempts_back_off_and_retry [OF f, of cfg0 "''PEM''" fs0 "[env_ok]"]
    by simp
qed

text \<open>
  The claim as written fails for a failed write (lines 163 to 165): the attempt fails,
  the loop sleeps five seconds and goes round, and the certificate file, absent before,
  now holds the four bytes written before the error.
\<close>

theorem failed_write_counterexample:
  "attempt_fails (env_ok\<lparr>handling := henv_ok\<lparr>write_err := Some (4, ''no space left on device'')\<rparr>\<rparr>)
   \<and> fst (attempt cfg0 ''PEM''
       (env_ok\<lparr>handling := henv_ok\<lparr>write_err := Some (4, ''no space left on device'')\<rparr>\<rparr>) fs0) = None
   \<and> sleeps (events_of (attempt cfg0 ''PEM''
       (env_ok\<lparr>handling := henv_ok\<lparr>write_err := Some (4, ''no space left on device'')\<rparr>\<rparr>) fs0))
       = [5 * Second]
   \<and> files fs0 ''/certs/tls.pem'' = None
   \<and> map_option content (files (filesys_of (attempt cfg0 ''PEM''
       (env_ok\<lparr>handling := henv_ok\<lparr>write_err := Some (4, ''no space left on device'')\<rparr>\<rparr>) fs0))
         ''/certs/tls.pem'') = Some ''LEAF''"
proof -
  let ?env = "env_ok\<lparr>handling := henv_ok\<lparr>write_err := Some (4, ''no space left on device'')\<rparr>\<rparr>"
  have f: "attempt_fails ?env"
    by (simp add: attempt_fails_def handling_fails_def env_ok_def henv_ok_def resp_bundle_def)
  have r: "signing ?env = Decoded resp_bundle" by (simp add: env_ok_def)
  have h: "handleCertificateResponse cfg0 (handling ?env) resp_bundle fs0 =
     (Return (Some ''no space left on device''),
        close_handle (CertificateFile cfg0)
          (write_bytes (CertificateFile cfg0) ''LEAF''
             (open_create_trunc (CertificateFile cfg0) mode_0600 fs0)),
        [Log InfoLevel ''writing the certificate to disk''
           [(''path'', FieldString (CertificateFile cfg0))],
         OpenFile (CertificateFile cfg0) [O_CREATE, O_TRUNC, O_RDWR] mode_0600,
         WriteString (CertificateFile cfg0) ''LEAF+CHAIN'',
         Close (CertificateFile cfg0)])"
    by (simp add: handleCertificateResponse_def Let_def henv_ok_def resp_bundle_def)
  have p: "CertificateFile cfg0 = ''/certs/tls.pem''" by (simp add: CertificateFile_def cfg0_def)
  show ?thesis
    using f attempt_failed [OF f, of cfg0 "''PEM''" fs0]
    by (simp add: attempt_decoded [OF r h] filesys_of_def files_close_handle
        files_after_write p [symmetric])
       (simp add: fs0_def)
qed



text \<open>
  Claim C3. \<^verbatim>\<open>run\<close> calls \<^verbatim>\<open>createCertificateRequest\<close> at most once and
  \<^verbatim>\<open>encodeCertificateRequest\<close> at most once. When start-up goes through, each is called
  exactly once, both before the first pass of the loop, and the loop calls neither; every
  request the loop posts carries the one encoded text, so the bodies of any two
  consecutive rotations hold the same text.
\<close>

theorem csr_built_once_before_loop:
  "constructions (events_of (run c senv envs fs)) =
     (case mkdir_err senv of
        Some e \<Rightarrow> []
      | None \<Rightarrow> CreateCertificateRequest #
          (case csr_result senv of
             Inl e \<Rightarrow> []
           | Inr kc \<Rightarrow> [EncodeCertificateRequest (snd kc)]))
   \<and> (\<forall>kc enc. mkdir_err senv = None \<and> csr_result senv = Inr kc
          \<and> encode_result senv = Inr enc \<longrightarrow>
        events_of (run c senv envs fs) =
          [MkdirAll (CertsDir c) mode_0770, CreateCertificateRequest,
           EncodeCertificateRequest (snd kc), MakeOperationTimeout (Timeout c)]
          @ events_of (run_loop c enc envs fs)
        \<and> constructions (events_of (run_loop c enc envs fs)) = []
        \<and> posted_csrs (events_of (run c senv envs fs))
            = replicate (length (posted_csrs (events_of (run c senv envs fs)))) (Some enc))
   \<and> (\<forall>i. Suc i < length (posted_csrs (events_of (run c senv envs fs))) \<longrightarrow>
        posted_csrs (events_of (run c senv envs fs)) ! i
          = posted_csrs (events_of (run c senv envs fs)) ! Suc i)"
  (is "?A \<and> ?B \<and> ?C")
proof -
  have loop: "constructions (events_of (run_loop c enc envs fs)) = []"
    "posted_csrs (events_of (run_loop c enc envs fs))
       = replicate (length (posted_csrs (events_of (run_loop c enc envs fs)))) (Some enc)"
    for enc
    by (rule run_loop_observed [THEN conjunct1],
        rule replicate_of_subset [OF run_loop_observed [THEN conjunct2]])
  have ev: "events_of (run c senv envs fs) =
     (case mkdir_err senv of
        Some e \<Rightarrow> [MkdirAll (CertsDir c) mode_0770]
      | None \<Rightarrow>
          (case csr_result senv of
             Inl e \<Rightarrow> [MkdirAll (CertsDir c) mode_0770, CreateCertificateRequest]
           | Inr kc \<Rightarrow>
               (case encode_result senv of
                  Inl e \<Rightarrow> [MkdirAll (CertsDir c) mode_0770, CreateCertificateRequest,
                            EncodeCertificateRequest (snd kc)]
                | Inr enc \<Rightarrow>
                    [MkdirAll (CertsDir c) mode_0770, CreateCertificateRequest,
                     EncodeCertificateRequest (snd kc), MakeOperationTimeout (Timeout c)]
                    @ events_of (run_loop c enc envs fs))))"
    by (simp add: run_def events_of_def Let_def split: option.splits sum.splits prod.splits)
  have c1: "constructions (events_of (run c senv envs fs)) =
     (case mkdir_err senv of
        Some e \<Rightarrow> []
      | None \<Rightarrow> CreateCertificateRequest #
          (case csr_result senv of
             Inl e \<Rightarrow> []
           | Inr kc \<Rightarrow> [EncodeCertificateRequest (snd kc)]))"
    unfolding ev using loop(1)
    by (simp add: constructions_append split: option.splits sum.splits)
       (simp add: constructions_def)
  have p: "posted_csrs (events_of (run c senv envs fs)) =
     (case (mkdir_err senv, csr_result senv, encode_result senv) of
        (None, Inr kc, Inr enc) \<Rightarrow> posted_csrs (events_of (run_loop c enc envs fs))
      | _ \<Rightarrow> [])"
    unfolding ev
    by (simp add: posted_csrs_append split: option.splits sum.splits)
       (simp add: posted_csrs_def)
  have c2: "events_of (run c senv envs fs) =
          [MkdirAll (CertsDir c) mode_0770, CreateCertificateRequest,
           EncodeCertificateRequest (snd kc), MakeOperationTimeout (Timeout c)]
          @ events_of (run_loop c enc envs fs)
        \<and> constructions (events_of (run_loop c enc envs fs)) = []
        \<and> posted_csrs (events_of (run c senv envs fs))
            = replicate (length (posted_csrs (events_of (run c senv envs fs)))) (Some enc)"
    if "mkdir_err senv = None" "csr_result senv = Inr kc" "encode_result senv = Inr enc"
    for kc enc
  proof -
    have e: "events_of (run c senv envs fs) =
          [MkdirAll (CertsDir c) mode_0770, CreateCertificateRequest,
           EncodeCertificateRequest (snd kc), MakeOperationTimeout (Timeout c)]
          @ events_of (run_loop c enc envs fs)"
      unfolding ev by (simp add: that)
    have q: "posted_csrs (events_of (run c senv envs fs))
             = posted_csrs (events_of (run_loop c enc envs fs))"
      unfolding p by (simp add: that)
    have t: "posted_csrs (events_of (run c senv envs fs))
            = replicate (length (posted_csrs (events_of (run c senv envs fs)))) (Some enc)"
      unfolding q by (rule loop(2))
    show ?thesis by (intro conjI e loop(1) t)
  qed
  have c3: "posted_csrs (events_of (run c senv envs fs)) ! i
          = posted_csrs (events_of (run c senv envs fs)) ! Suc i"
    if i: "Suc i < length (posted_csrs (events_of (run c senv envs fs)))" for i
  proof -
    from i have "posted_csrs (events_of (run c senv envs fs)) \<noteq> []" by auto
    then obtain kc enc where kce: "mkdir_err senv = None" "csr_result senv = Inr kc"
      "encode_result senv = Inr enc"
      unfolding p by (auto split: option.splits sum.splits)
    note r = c2 [OF kce, THEN conjunct2, THEN conjunct2]
    show ?thesis
      using i by (subst (1 2) r) simp
  qed
  have B: ?B
  proof (intro allI impI)
    fix kc enc
    assume "mkdir_err senv = None \<and> csr_result senv = Inr kc \<and> encode_result senv = Inr enc"
    then have "mkdir_err senv = None" "csr_result senv = Inr kc" "encode_result senv = Inr enc"
      by simp_all
    then show "events_of (run c senv envs fs) =
          [MkdirAll (CertsDir c) mode_0770, CreateCertificateRequest,
           EncodeCertificateRequest (snd kc), MakeOperationTimeout (Timeout c)]
          @ events_of (run_loop c enc envs fs)
        \<and> constructions (events_of (run_loop c enc envs fs)) = []
        \<and> posted_csrs (events_of (run c senv envs fs))
            = replicate (length (posted_csrs (events_of (run c senv envs fs)))) (Some enc)"
      by (rule c2)
  qed
  have C: ?C by (intro allI impI) (rule c3)
  show ?thesis by (rule conjI [OF c1 conjI [OF B C]])
qed

theorem csr_built_once_before_loop_witness:
  "mkdir_err senv_ok = None \<and> csr_result senv_ok = Inr (''KEY'', ''CSR'')
   \<and> encode_result senv_ok = Inr ''PEM''
   \<and> constructions (events_of (run cfg0 senv_ok [env_unreachable, env_ok, env_ok] fs0))
     = [CreateCertificateRequest, EncodeCertificateRequest ''CSR'']
   \<and> posted_csrs (events_of (run cfg0 senv_ok [env_unreachable, env_ok, env_ok] fs0))
     = [Some ''PEM'', Some ''PEM'', Some ''PEM'']
   \<and> Suc 1 < length (posted_csrs
        (events_of (run cfg0 senv_ok [env_unreachable, env_ok, env_ok] fs0)))
   \<and> posted_csrs (events_of (run cfg0 senv_ok [env_unreachable, env_ok, env_ok] fs0)) ! 1
     = posted_csrs (events_of (run cfg0 senv_ok [env_unreachable, env_ok, env_ok] fs0)) ! Suc 1"
proof -
  let ?run = "run cfg0 senv_ok [env_unreachable, env_ok, env_ok] fs0"
  let ?loop = "run_loop cfg0 ''PEM'' [env_unreachable, env_ok, env_ok] fs0"
  have a: "attempt_fails env_unreachable"
    by (simp add: attempt_fails_def env_unreachable_def)
  have s: "attempt_succeeds cfg0 env_ok"
    by (simp add: attempt_succeeds_def persisted_def kills_unstarted_def env_ok_def
        henv_ok_def resp_bundle_def)
  have d: "\<not> Onetime cfg0" by (simp add: cfg0_def)
  have f1: "fst (attempt cfg0 ''PEM'' env_unreachable fs) = None"
    "posted_csrs (events_of (attempt cfg0 ''PEM'' env_unreachable fs)) = [Some ''PEM'']" for fs
    using attempt_failed [OF a, of cfg0 "''PEM''" fs] by (simp_all add: env_unreachable_def)
  have f2: "fst (attempt cfg0 ''PEM'' env_ok fs) = None"
    "posted_csrs (events_of (attempt cfg0 ''PEM'' env_ok fs)) = [Some ''PEM'']" for fs
    using attempt_succeeded [OF s, of "''PEM''" fs] d by simp_all
  have l: "posted_csrs (events_of ?loop) = [Some ''PEM'', Some ''PEM'', Some ''PEM'']"
    by (simp add: run_loop_Cons_continue f1 f2 posted_csrs_append events_of_triple
        posted_csrs_def [of "[]"] del: run_loop.simps(2))
  have v: "mkdir_err senv_ok = None" "csr_result senv_ok = Inr (''KEY'', ''CSR'')"
    "encode_result senv_ok = Inr ''PEM''"
    by (simp_all add: senv_ok_def)
  note t = csr_built_once_before_loop [of cfg0 senv_ok "[env_unreachable, env_ok, env_ok]" fs0]
  have c: "constructions (events_of ?run)
           = [CreateCertificateRequest, EncodeCertificateRequest ''CSR'']"
    using t [THEN conjunct1] by (simp only: v option.case sum.case snd_conv)
  have ev: "events_of ?run =
          [MkdirAll (CertsDir cfg0) mode_0770, CreateCertificateRequest,
           EncodeCertificateRequest (snd (''KEY'', ''CSR'')), MakeOperationTimeout (Timeout cfg0)]
          @ events_of ?loop"
    by (rule t [THEN conjunct2, THEN conjunct1, rule_format,
          OF conjI [OF v(1) conjI [OF v(2) v(3)]], THEN conjunct1])
  have p: "posted_csrs (events_of ?run) = [Some ''PEM'', Some ''PEM'', Some ''PEM'']"
    unfolding ev posted_csrs_append l by (simp add: posted_csrs_def)
  have n: "Suc 1 < length (posted_csrs (events_of ?run))"
    by (simp only: p) simp
  have e: "posted_csrs (events_of ?run) ! 1 = posted_csrs (events_of ?run) ! Suc 1"
    by (rule t [THEN conjunct2, THEN conjunct2, rule_format, OF n])
  show ?thesis by (intro conjI v c p n e)
qed

section \<open>Properties of the reload command\<close>

text \<open>
  Claim C5. The write of the certificate text is complete before the reload command is
  started, and no outcome of the command makes the handler return an error (see
  \<open>started_command_outcome\<close>). The failure of the command is not always logged, though.
  The theorem evaluates the handler where the command outlives the deadline and is
  killed: \<^verbatim>\<open>cmd.Process.Kill\<close> returns nil, \<^verbatim>\<open>cmd.Wait\<close> returns \<^verbatim>\<open>signal: killed\<close>, and the
  store of the timer's function into \<^verbatim>\<open>err\<close> (line 177) comes after the store of the
  handler (line 181). The handler then loads nil on line 183: it returns nil with the
  text in the file, and neither it nor the timer's function logs anything about the
  failed command.
\<close>

theorem killed_reload_goes_unlogged:
  "wait_err (henv_ok\<lparr>timer_fires := True, wait_err := Some ''signal: killed'',
                     interleaving := M_T_T_M\<rparr>) = Some ''signal: killed''
   \<and> fst (handleCertificateResponse (cfg0\<lparr>ExecCommand := ''/bin/reload''\<rparr>)
          (henv_ok\<lparr>timer_fires := True, wait_err := Some ''signal: killed'',
                    interleaving := M_T_T_M\<rparr>)
          resp_bundle fs0) = Return None
   \<and> events_of (handleCertificateResponse (cfg0\<lparr>ExecCommand := ''/bin/reload''\<rparr>)
          (henv_ok\<lparr>timer_fires := True, wait_err := Some ''signal: killed'',
                    interleaving := M_T_T_M\<rparr>)
          resp_bundle fs0) =
       [Log InfoLevel ''writing the certificate to disk''
          [(''path'', FieldString ''/certs/tls.pem'')],
        OpenFile ''/certs/tls.pem'' [O_CREATE, O_TRUNC, O_RDWR] mode_0600,
        WriteString ''/certs/tls.pem'' ''LEAF+CHAIN'',
        Log InfoLevel ''calling external command''
          [(''command'', FieldString ''/bin/reload''),
           (''timeout'', FieldDuration (60 * Second))],
        Start ''/bin/reload'' [''/certs/tls.pem'', ''/certs/tls-key.pem'', ''/certs/tls-ca.pem''],
        AfterFunc (60 * Second),
        Wait, Kill, TimerStop,
        Close ''/certs/tls.pem'']
   \<and> map_option content
        (files (filesys_of (handleCertificateResponse (cfg0\<lparr>ExecCommand := ''/bin/reload''\<rparr>)
          (henv_ok\<lparr>timer_fires := True, wait_err := Some ''signal: killed'',
                    interleaving := M_T_T_M\<rparr>)
          resp_bundle fs0)) ''/certs/tls.pem'') = Some ''LEAF+CHAIN''"
proof -
  define C where "C = cfg0\<lparr>ExecCommand := ''/bin/reload''\<rparr>"
  define E where "E = henv_ok\<lparr>timer_fires := True, wait_err := Some ''signal: killed'',
                             interleaving := M_T_T_M\<rparr>"
  have p: "persisted E resp_bundle"
    by (simp add: persisted_def E_def henv_ok_def resp_bundle_def)
  have x: "ExecCommand C \<noteq> []" by (simp add: C_def)
  have st: "start_err E = None" by (simp add: E_def henv_ok_def)
  have e: "timer_fires E" "kill_err E = None" "wait_err E = Some ''signal: killed''"
    "interleaving E = M_T_T_M"
    by (simp_all add: E_def henv_ok_def)
  have c: "CertificateFile C = ''/certs/tls.pem''" "PrivateKeyFile C = ''/certs/tls-key.pem''"
    "CAFile C = ''/certs/tls-ca.pem''" "ExecCommand C = ''/bin/reload''"
    "Timeout C = 60 * Second"
    by (simp_all add: C_def cfg0_def CertificateFile_def PrivateKeyFile_def CAFile_def)
  have b: "Bundle_b (Bundle_r (Result resp_bundle)) = ''LEAF+CHAIN''"
    by (simp add: resp_bundle_def)
  have 1: "fst (handleCertificateResponse C E resp_bundle fs0) = Return None"
    by (rule started_command_outcome(1) [OF p x st])
  have 2: "events_of (handleCertificateResponse C E resp_bundle fs0) =
       [Log InfoLevel ''writing the certificate to disk''
          [(''path'', FieldString ''/certs/tls.pem'')],
        OpenFile ''/certs/tls.pem'' [O_CREATE, O_TRUNC, O_RDWR] mode_0600,
        WriteString ''/certs/tls.pem'' ''LEAF+CHAIN'',
        Log InfoLevel ''calling external command''
          [(''command'', FieldString ''/bin/reload''),
           (''timeout'', FieldDuration (60 * Second))],
        Start ''/bin/reload'' [''/certs/tls.pem'', ''/certs/tls-key.pem'', ''/certs/tls-ca.pem''],
        AfterFunc (60 * Second),
        Wait, Kill, TimerStop,
        Close ''/certs/tls.pem'']"
    unfolding started_command_outcome(2) [OF p x st]
    by (simp add: e c b race_events_cases)
  have 3: "map_option content
        (files (filesys_of (handleCertificateResponse C E resp_bundle fs0)) ''/certs/tls.pem'')
        = Some ''LEAF+CHAIN''"
    using started_command_outcome(3) [OF p x st, of fs0] by (simp add: c b)
  show ?thesis
    using e(3) 1 2 3 unfolding C_def E_def by (intro conjI)
qed

text \<open>
  Claim C10, as amended. When a reload command is configured and the certificate is
  written, the result of \<^verbatim>\<open>cmd.Start\<close> is not looked at: the six events up to the arming
  of the timer are the same whether the command started or not. The handler panics on a
  nil \<^verbatim>\<open>Process\<close> exactly when the start failed and the timer fires before it is
  stopped; \<^verbatim>\<open>Kill\<close> is called on a process exactly when the command started and the timer
  fires; so the timer's function is safe exactly for a command that started. When the
  start failed and the timer does not fire, \<^verbatim>\<open>cmd.Wait\<close> returns \<^verbatim>\<open>exec: not started\<close> at
  once, the timer is stopped, the error is logged and the handler returns nil.
\<close>

theorem kill_of_unstarted_command:
  "(fst (handleCertificateResponse c env r fs) = Panic NilPointerDereference
      \<longleftrightarrow> persisted env r \<and> ExecCommand c \<noteq> [] \<and> start_err env \<noteq> None \<and> timer_fires env)
   \<and> (persisted env r \<and> ExecCommand c \<noteq> [] \<longrightarrow>
        take 6 (events_of (handleCertificateResponse c env r fs)) =
          [Log InfoLevel ''writing the certificate to disk''
             [(''path'', FieldString (CertificateFile c))],
           OpenFile (CertificateFile c) [O_CREATE, O_TRUNC, O_RDWR] mode_0600,
           WriteString (CertificateFile c)
             (if Bundle_b (Bundle_r (Result r)) \<noteq> [] then Bundle_b (Bundle_r (Result r))
              else Certificate (Result r)),
           Log InfoLevel ''calling external command''
             [(''command'', FieldString (ExecCommand c)),
              (''timeout'', FieldDuration (Timeout c))],
           Start (ExecCommand c) [CertificateFile c, PrivateKeyFile c, CAFile c],
           AfterFunc (Timeout c)]
        \<and> (Kill \<in> set (events_of (handleCertificateResponse c env r fs))
             \<longleftrightarrow> start_err env = None \<and> timer_fires env)
        \<and> (start_err env \<noteq> None \<and> \<not> timer_fires env \<longrightarrow>
             fst (handleCertificateResponse c env r fs) = Return None
             \<and> Log ErrorLevel ''error calling external command''
                  [(''command'', FieldString (ExecCommand c)),
                   (''error'', FieldString ''exec: not started'')]
                \<in> set (events_of (handleCertificateResponse c env r fs))))"
proof (rule handler_cases [where r = r and env = env])
  assume p: "persisted env r"
  show ?thesis
  proof (cases "start_err env")
    case None
    then show ?thesis using p
      by (simp add: handler_persisted kills_unstarted_def events_of_def
          externalCommand_started race_events_kill split: option.splits)
  next
    case (Some e)
    then show ?thesis using p
      by (simp add: handler_persisted kills_unstarted_def events_of_def
          externalCommand_unstarted)
  qed
qed (simp_all add: handler_no_errors handler_unsuccessful handler_no_certificate
        handler_open_fails handler_write_fails persisted_def)

theorem kill_of_unstarted_command_witness:
  "persisted (henv_ok\<lparr>start_err := Some ''executable file not found'', timer_fires := True\<rparr>)
     resp_bundle
   \<and> ExecCommand (cfg0\<lparr>ExecCommand := ''/bin/reload''\<rparr>) \<noteq> []
   \<and> fst (handleCertificateResponse (cfg0\<lparr>ExecCommand := ''/bin/reload''\<rparr>)
          (henv_ok\<lparr>start_err := Some ''executable file not found'', timer_fires := True\<rparr>)
          resp_bundle fs0) = Panic NilPointerDereference
   \<and> fst (handleCertificateResponse (cfg0\<lparr>ExecCommand := ''/bin/reload''\<rparr>)
          (henv_ok\<lparr>timer_fires := True\<rparr>) resp_bundle fs0) \<noteq> Panic NilPointerDereference"
  using kill_of_unstarted_command [of "cfg0\<lparr>ExecCommand := ''/bin/reload''\<rparr>"
          "henv_ok\<lparr>start_err := Some ''executable file not found'', timer_fires := True\<rparr>"
          resp_bundle fs0, THEN conjunct1]
        kill_of_unstarted_command [of "cfg0\<lparr>ExecCommand := ''/bin/reload''\<rparr>"
          "henv_ok\<lparr>timer_fires := True\<rparr>" resp_bundle fs0, THEN conjunct1]
  by (simp add: persisted_def henv_ok_def resp_bundle_def)

text \<open>
  The claim as written has the timer fire whenever the start fails. It need not: for a
  command that did not start, \<^verbatim>\<open>cmd.Wait\<close> returns at once and \<^verbatim>\<open>timer.Stop\<close> follows
  (lines 181 and 182), so with the timer not yet due the handler returns nil and nothing
  is dereferenced.
\<close>

theorem unstarted_command_timer_stopped_counterexample:
  "start_err (henv_ok\<lparr>start_err := Some ''executable file not found''\<rparr>) \<noteq> None
   \<and> \<not> timer_fires (henv_ok\<lparr>start_err := Some ''executable file not found''\<rparr>)
   \<and> fst (handleCertificateResponse (cfg0\<lparr>ExecCommand := ''/bin/reload''\<rparr>)
          (henv_ok\<lparr>start_err := Some ''executable file not found''\<rparr>)
          resp_bundle fs0) = Return None
   \<and> Kill \<notin> set (events_of (handleCertificateResponse (cfg0\<lparr>ExecCommand := ''/bin/reload''\<rparr>)
          (henv_ok\<lparr>start_err := Some ''executable file not found''\<rparr>)
          resp_bundle fs0))"
proof -
  have p: "persisted (henv_ok\<lparr>start_err := Some ''executable file not found''\<rparr>) resp_bundle"
    by (simp add: persisted_def henv_ok_def resp_bundle_def)
  have k: "\<not> kills_unstarted (cfg0\<lparr>ExecCommand := ''/bin/reload''\<rparr>)
             (henv_ok\<lparr>start_err := Some ''executable file not found''\<rparr>)"
    by (simp add: kills_unstarted_def henv_ok_def)
  have s: "start_err (henv_ok\<lparr>start_err := Some ''executable file not found''\<rparr>)
           = Some ''executable file not found''"
    by simp
  show ?thesis
    using k
    by (simp add: handler_persisted [OF p] events_of_def externalCommand_unstarted [OF s])
       (simp add: henv_ok_def)
qed

end
